theory Spec2Isabelle
  imports Main "HOL-Library.AList"
begin

section \<open>Host data: URIs, notebook documents, breakpoints\<close>

text \<open>
  A \<^verbatim>\<open>vscode.Uri\<close> is its five components. \<^verbatim>\<open>toString()\<close> joins the
  non-empty components in the host's fixed order; percent-encoding of reserved characters
  is a matter of the host library and is left out (cell addresses are made of unreserved
  characters). The general theorems below take the result as an unknown string; only the
  concrete examples evaluate it.
\<close>

record uri =
  uri_scheme :: string
  uri_authority :: string
  uri_path :: string
  uri_query :: string
  uri_fragment :: string

definition uri_toString :: "uri \<Rightarrow> string" where
  "uri_toString u =
     (if uri_scheme u = [] then [] else uri_scheme u @ '':'')
     @ (if uri_authority u \<noteq> [] \<or> uri_scheme u = ''file'' then ''//'' else [])
     @ uri_authority u
     @ uri_path u
     @ (if uri_query u = [] then [] else ''?'' @ uri_query u)
     @ (if uri_fragment u = [] then [] else ''#'' @ uri_fragment u)"

datatype cell_kind = Markdown | Code

text \<open>
  A notebook cell is an object of the host: \<open>cell_handle\<close> stands for its identity
  (\<^verbatim>\<open>===\<close> on two cell references compares handles), \<open>cell_uri\<close> is its
  read-only address, \<open>cell_text\<close> is what \<^verbatim>\<open>cell.document.getText()\<close> returns
  now, \<open>breakpointMargin\<close> is the metadata flag of the same name.
\<close>

record notebook_cell =
  cell_handle :: nat
  cell_uri :: uri
  cellKind :: cell_kind
  cell_text :: string
  breakpointMargin :: "bool option"

record notebook_document =
  doc_handle :: nat
  doc_uri :: uri
  fileName :: string
  cells :: "notebook_cell list"

record range =
  start_line :: nat
  start_character :: nat
  end_line :: nat
  end_character :: nat

record location =
  loc_uri :: uri
  loc_range :: range

text \<open>
  \<^verbatim>\<open>vscode.Breakpoint\<close> with its two subclasses. The fields after the location
  (or function name) are \<^verbatim>\<open>enabled\<close>, \<^verbatim>\<open>condition\<close>, \<^verbatim>\<open>hitCondition\<close>
  and \<^verbatim>\<open>logMessage\<close>.
\<close>

datatype breakpoint =
    SourceBreakpoint location bool "string option" "string option" "string option"
  | FunctionBreakpoint string bool "string option" "string option" "string option"

text \<open>
  \<^verbatim>\<open>new vscode.SourceBreakpoint(loc)\<close>: the constructor's optional arguments are
  left out, so the breakpoint is enabled and has no condition, hit condition or log message.
\<close>

definition new_SourceBreakpoint :: "location \<Rightarrow> breakpoint" where
  "new_SourceBreakpoint loc = SourceBreakpoint loc True None None None"

section \<open>String helpers of the language runtime\<close>

text \<open>\<^verbatim>\<open>Number.prototype.toString()\<close> on a non-negative integer: its decimal digits.\<close>

definition digit_char :: "nat \<Rightarrow> char" where
  "digit_char d = char_of (48 + d)"

fun string_of_nat :: "nat \<Rightarrow> string" where
  "string_of_nat n =
     (if n < 10 then [digit_char n] else string_of_nat (n div 10) @ [digit_char (n mod 10)])"

declare string_of_nat.simps [simp del]

text \<open>\<^verbatim>\<open>String.prototype.padStart(w, c)\<close> with a one-character filler.\<close>

definition padStart :: "nat \<Rightarrow> char \<Rightarrow> string \<Rightarrow> string" where
  "padStart w c s = replicate (w - length s) c @ s"

text \<open>
  \<^verbatim>\<open>parseInt(s)\<close> with no radix: leading white space (here the ASCII white space
  characters) is skipped, one sign is read, a \<^verbatim>\<open>0x\<close> prefix selects radix 16, and
  the longest prefix of digits of the radix is the value; with no digit the result is
  \<^verbatim>\<open>NaN\<close>, here \<open>None\<close>, which differs from every index. The value is an
  exact integer: the rounding of values beyond \<open>2 ^ 53\<close> plays no part in a comparison
  with an array index.
\<close>

definition is_white_space :: "char \<Rightarrow> bool" where
  "is_white_space c = (of_char c = (32::nat) \<or> (9 \<le> (of_char c :: nat) \<and> (of_char c :: nat) \<le> 13))"

definition digit_value :: "char \<Rightarrow> nat option" where
  "digit_value c =
     (let n = (of_char c :: nat) in
      if 48 \<le> n \<and> n \<le> 57 then Some (n - 48)
      else if 97 \<le> n \<and> n \<le> 122 then Some (n - 87)
      else if 65 \<le> n \<and> n \<le> 90 then Some (n - 55)
      else None)"

definition is_digit_of :: "nat \<Rightarrow> char \<Rightarrow> bool" where
  "is_digit_of radix c = (case digit_value c of None \<Rightarrow> False | Some d \<Rightarrow> d < radix)"

definition digits_value :: "nat \<Rightarrow> string \<Rightarrow> nat" where
  "digits_value radix ds = foldl (\<lambda>acc c. acc * radix + (case digit_value c of None \<Rightarrow> 0 | Some d \<Rightarrow> d)) 0 ds"

definition strip_sign :: "string \<Rightarrow> int \<times> string" where
  "strip_sign s =
     (case s of
        [] \<Rightarrow> (1, s)
      | c # r \<Rightarrow> if c = CHR ''-'' then (- 1, r) else if c = CHR ''+'' then (1, r) else (1, s))"

definition strip_radix :: "string \<Rightarrow> nat \<times> string" where
  "strip_radix s =
     (case s of
        a # b # r \<Rightarrow>
          if a = CHR ''0'' \<and> (b = CHR ''x'' \<or> b = CHR ''X'') then (16, r) else (10, s)
      | _ \<Rightarrow> (10, s))"

definition parseInt :: "string \<Rightarrow> int option" where
  "parseInt s =
     (let (sign, s2) = strip_sign (dropWhile is_white_space s);
          (radix, s3) = strip_radix s2;
          ds = takeWhile (is_digit_of radix) s3
      in if ds = [] then None else Some (sign * int (digits_value radix ds)))"

text \<open>
  \<^verbatim>\<open>path.basename(p)\<close> in its POSIX form: trailing separators are dropped and the
  last segment is returned.
\<close>

definition basename :: "string \<Rightarrow> string" where
  "basename p =
     rev (takeWhile (\<lambda>c. c \<noteq> CHR ''/'') (dropWhile (\<lambda>c. c = CHR ''/'') (rev p)))"

section \<open>Breakpoint repair (DebuggingManager.fixBreakpoints)\<close>

text \<open>
  The \<^verbatim>\<open>Map<string, vscode.Uri>\<close> of stale cell addresses is an association list
  with unique keys; \<^verbatim>\<open>map.set\<close> is \<open>AList.update\<close>, \<^verbatim>\<open>map.get\<close> is
  \<open>map_of\<close>, \<^verbatim>\<open>map.size > 0\<close> is non-emptiness. The function is the body of
  \<^verbatim>\<open>doc.cells.forEach((cell, ix) => ...)\<close> from index \<open>ix\<close> on.
\<close>

fun stale_map :: "notebook_cell list \<Rightarrow> nat \<Rightarrow> (string \<times> uri) list \<Rightarrow> (string \<times> uri) list" where
  "stale_map [] ix m = m"
| "stale_map (cell # rest) ix m =
     stale_map rest (Suc ix)
       (if parseInt (uri_fragment (cell_uri cell)) \<noteq> Some (int ix)
        then AList.update (uri_toString (cell_uri cell))
               ((cell_uri cell)\<lparr>uri_fragment := padStart 8 (CHR ''0'') (string_of_nat ix)\<rparr>) m
        else m)"

text \<open>
  The loop over \<^verbatim>\<open>vscode.debug.breakpoints\<close>: the pair is
  (\<^verbatim>\<open>removeBpt\<close>, \<^verbatim>\<open>addBpts\<close>), both in the order of the store.
\<close>

fun scan_breakpoints :: "(string \<times> uri) list \<Rightarrow> breakpoint list \<Rightarrow> breakpoint list \<times> breakpoint list" where
  "scan_breakpoints m [] = ([], [])"
| "scan_breakpoints m (b # bs) =
     (let (removeBpt, addBpts) = scan_breakpoints m bs in
      case b of
        SourceBreakpoint loc en cond hit logm \<Rightarrow>
          (case map_of m (uri_toString (loc_uri loc)) of
             Some s \<Rightarrow>
               (b # removeBpt,
                new_SourceBreakpoint \<lparr>loc_uri = s, loc_range = loc_range loc\<rparr> # addBpts)
           | None \<Rightarrow> (removeBpt, addBpts))
      | FunctionBreakpoint fn en cond hit logm \<Rightarrow> (removeBpt, addBpts))"

text \<open>The calls made on the host's breakpoint store.\<close>

datatype store_call =
    RemoveBreakpoints "breakpoint list"
  | AddBreakpoints "breakpoint list"

definition fixBreakpoints :: "notebook_document \<Rightarrow> breakpoint list \<Rightarrow> store_call list" where
  "fixBreakpoints doc breakpoints =
     (let m = stale_map (cells doc) 0 [] in
      if m \<noteq> [] then
        (let (removeBpt, addBpts) = scan_breakpoints m breakpoints in
         (if removeBpt \<noteq> [] then [RemoveBreakpoints removeBpt] else [])
         @ (if addBpts \<noteq> [] then [AddBreakpoints addBpts] else []))
      else [])"

text \<open>
  Modelled from the spec: the Document/Breakpoint Store collaborator, the host's
  collection of breakpoints with batched remove and add operations.
  \<^verbatim>\<open>removeBreakpoints\<close> takes the listed breakpoints out,
  \<^verbatim>\<open>addBreakpoints\<close> appends the new ones. A repair is the calls of
  \<^verbatim>\<open>fixBreakpoints\<close> applied to the store in order.
\<close>

fun apply_call :: "breakpoint list \<Rightarrow> store_call \<Rightarrow> breakpoint list" where
  "apply_call store (RemoveBreakpoints bs) = filter (\<lambda>b. b \<notin> set bs) store"
| "apply_call store (AddBreakpoints bs) = store @ bs"

definition run_fixBreakpoints :: "notebook_document \<Rightarrow> breakpoint list \<Rightarrow> breakpoint list" where
  "run_fixBreakpoints doc store = foldl apply_call store (fixBreakpoints doc store)"

section \<open>Session coordinator (DebuggingManager.toggleDebugging)\<close>

text \<open>
  The \<^verbatim>\<open>session\<close> promise of a \<^verbatim>\<open>Debugger\<close> is recorded by what an
  \<^verbatim>\<open>await\<close> of it yields: it stays pending for ever, it resolves with a session
  handle, or it rejects with a reason.
\<close>

datatype session_state = Pending | Resolved nat | Rejected string

record debugger =
  dbg_document :: nat
  session :: session_state

datatype ui_effect =
    StartDebugging string string
  | ExecuteCommand string
  | ShowErrorMessage string
  | Log string

text \<open>How an awaited call ends: it never returns, it throws, or it returns.\<close>

datatype completion = Never | Throws string | Returns

text \<open>
  What the host decides during one call: the foreground debug session
  (\<^verbatim>\<open>vscode.debug.activeDebugSession\<close>), how
  \<^verbatim>\<open>kernelManager.getDocumentKernel\<close> ends, and how the session promise of a
  \<^verbatim>\<open>Debugger\<close> created by this call settles.
\<close>

record host_env =
  activeDebugSession :: "nat option"
  getDocumentKernel :: completion
  session_outcome :: session_state

text \<open>
  The \<^verbatim>\<open>Map<vscode.NotebookDocument, Debugger>\<close> is keyed by the document object:
  \<open>doc_handle\<close> stands for its identity.
\<close>

record manager =
  notebookToDebugger :: "nat \<rightharpoonup> debugger"

definition updateDebuggerUI :: "notebook_document \<Rightarrow> bool \<Rightarrow> notebook_document" where
  "updateDebuggerUI doc showBreakpointsMargin =
     doc\<lparr>cells :=
       map (\<lambda>cell. if cellKind cell = Code
                    then cell\<lparr>breakpointMargin := Some showBreakpointsMargin\<rparr> else cell)
         (cells doc)\<rparr>"

definition Debugger_stop :: "host_env \<Rightarrow> debugger \<Rightarrow> ui_effect list \<times> completion" where
  "Debugger_stop env dbg =
     (case session dbg of
        Pending \<Rightarrow> ([], Never)
      | Rejected reason \<Rightarrow> ([], Throws reason)
      | Resolved s \<Rightarrow>
          if activeDebugSession env = Some s
          then ([ExecuteCommand ''workbench.action.debug.stop''], Returns)
          else ([Log ''cannot stop debugger''], Returns))"

text \<open>
  The result of \<^verbatim>\<open>toggleDebugging(doc)\<close>: the manager and the document as the call
  leaves them, the host calls it made, and how the call ended.
\<close>

definition toggleDebugging ::
  "host_env \<Rightarrow> manager \<Rightarrow> notebook_document \<Rightarrow>
     manager \<times> notebook_document \<times> ui_effect list \<times> completion" where
  "toggleDebugging env mgr doc =
     (case notebookToDebugger mgr (doc_handle doc) of
        Some dbg \<Rightarrow>
          (let (effects, c) = Debugger_stop env dbg in (mgr, doc, effects, c))
      | None \<Rightarrow>
          (let dbg = \<lparr>dbg_document = doc_handle doc, session = session_outcome env\<rparr>;
               started = [StartDebugging (basename (fileName doc)) (uri_toString (doc_uri doc))];
               mgr1 = mgr\<lparr>notebookToDebugger := (notebookToDebugger mgr)(doc_handle doc \<mapsto> dbg)\<rparr>
           in case getDocumentKernel env of
                Never \<Rightarrow> (mgr1, doc, started, Never)
              | Throws e \<Rightarrow> (mgr1, doc, started, Throws e)
              | Returns \<Rightarrow>
                  (case session dbg of
                     Pending \<Rightarrow> (mgr1, doc, started, Never)
                   | Resolved s \<Rightarrow> (mgr1, updateDebuggerUI doc True, started, Returns)
                   | Rejected err \<Rightarrow>
                       (mgr1, updateDebuggerUI doc False,
                        started @ [ShowErrorMessage (''Can't start debugging ('' @ err @ '')'')],
                        Returns))))"

section \<open>Protocol messages\<close>

text \<open>
  A \<^verbatim>\<open>DebugProtocol.Source\<close> with the two fields the bridge writes and one it does
  not; an absent field is \<open>None\<close>.
\<close>

record source =
  src_name :: "string option"
  src_path :: "string option"
  sourceReference :: "nat option"

record dap_breakpoint =
  bp_verified :: bool
  bp_source :: "source option"
  bp_line :: "nat option"

record stack_frame =
  frame_id :: nat
  frame_name :: string
  frame_source :: "source option"
  frame_line :: nat

record scope =
  scope_name :: string
  scope_source :: "source option"
  variablesReference :: nat

text \<open>
  The object under \<^verbatim>\<open>body\<close> or \<^verbatim>\<open>arguments\<close>: each field the visitor
  reads is present or absent; \<open>p_rest\<close> stands for everything else the object holds.
\<close>

record payload =
  p_source :: "source option"
  p_breakpoint :: "dap_breakpoint option"
  p_stackFrames :: "stack_frame list option"
  p_sources :: "source list option"
  p_scopes :: "scope list option"
  p_breakpoints :: "dap_breakpoint list option"
  p_rest :: string

text \<open>
  A \<^verbatim>\<open>DebugProtocol.ProtocolMessage\<close> as the object it is on the wire: the
  discriminator \<^verbatim>\<open>type\<close> and the fields of its three shapes, absent where the shape
  has none.
\<close>

record message =
  seq :: nat
  msg_type :: string
  event :: "string option"
  command :: "string option"
  success :: bool
  body :: "payload option"
  arguments :: "payload option"

text \<open>Reading a property of \<^verbatim>\<open>undefined\<close> throws.\<close>

datatype error = TypeError

section \<open>Source visitor (visitSources)\<close>

text \<open>
  The hook mutates a source object in place, so on a defined source it is a function from
  the source to the source after the call, and on \<^verbatim>\<open>undefined\<close> it can do nothing:
  \<open>map_option\<close>.
\<close>

type_synonym source_hook = "source \<Rightarrow> source"

definition on_body :: "message \<Rightarrow> (payload \<Rightarrow> error + payload) \<Rightarrow> error + message" where
  "on_body msg f =
     (case body msg of
        None \<Rightarrow> Inl TypeError
      | Some b \<Rightarrow> (case f b of Inl e \<Rightarrow> Inl e | Inr b' \<Rightarrow> Inr (msg\<lparr>body := Some b'\<rparr>)))"

definition on_arguments :: "message \<Rightarrow> (payload \<Rightarrow> error + payload) \<Rightarrow> error + message" where
  "on_arguments msg f =
     (case arguments msg of
        None \<Rightarrow> Inl TypeError
      | Some a \<Rightarrow> (case f a of Inl e \<Rightarrow> Inl e | Inr a' \<Rightarrow> Inr (msg\<lparr>arguments := Some a'\<rparr>)))"

definition hook_source :: "source_hook \<Rightarrow> payload \<Rightarrow> error + payload" where
  "hook_source sourceHook p = Inr (p\<lparr>p_source := map_option sourceHook (p_source p)\<rparr>)"

definition hook_breakpoint :: "source_hook \<Rightarrow> payload \<Rightarrow> error + payload" where
  "hook_breakpoint sourceHook p =
     (case p_breakpoint p of
        None \<Rightarrow> Inl TypeError
      | Some bp \<Rightarrow>
          Inr (p\<lparr>p_breakpoint := Some (bp\<lparr>bp_source := map_option sourceHook (bp_source bp)\<rparr>)\<rparr>))"

definition hook_stackFrames :: "source_hook \<Rightarrow> payload \<Rightarrow> error + payload" where
  "hook_stackFrames sourceHook p =
     (case p_stackFrames p of
        None \<Rightarrow> Inl TypeError
      | Some frames \<Rightarrow>
          Inr (p\<lparr>p_stackFrames :=
            Some (map (\<lambda>frame. frame\<lparr>frame_source := map_option sourceHook (frame_source frame)\<rparr>)
                    frames)\<rparr>))"

definition hook_sources :: "source_hook \<Rightarrow> payload \<Rightarrow> error + payload" where
  "hook_sources sourceHook p =
     (case p_sources p of
        None \<Rightarrow> Inl TypeError
      | Some sources \<Rightarrow> Inr (p\<lparr>p_sources := Some (map sourceHook sources)\<rparr>))"

definition hook_scopes :: "source_hook \<Rightarrow> payload \<Rightarrow> error + payload" where
  "hook_scopes sourceHook p =
     (case p_scopes p of
        None \<Rightarrow> Inl TypeError
      | Some scopes \<Rightarrow>
          Inr (p\<lparr>p_scopes :=
            Some (map (\<lambda>scope. scope\<lparr>scope_source := map_option sourceHook (scope_source scope)\<rparr>)
                    scopes)\<rparr>))"

definition hook_breakpoints :: "source_hook \<Rightarrow> payload \<Rightarrow> error + payload" where
  "hook_breakpoints sourceHook p =
     (case p_breakpoints p of
        None \<Rightarrow> Inl TypeError
      | Some bps \<Rightarrow>
          Inr (p\<lparr>p_breakpoints :=
            Some (map (\<lambda>bp. bp\<lparr>bp_source := map_option sourceHook (bp_source bp)\<rparr>) bps)\<rparr>))"

definition visitSources :: "source_hook \<Rightarrow> message \<Rightarrow> error + message" where
  "visitSources sourceHook msg =
     (if msg_type msg = ''event'' then
        (if event msg = Some ''output'' then on_body msg (hook_source sourceHook)
         else if event msg = Some ''loadedSource'' then on_body msg (hook_source sourceHook)
         else if event msg = Some ''breakpoint'' then on_body msg (hook_breakpoint sourceHook)
         else Inr msg)
      else if msg_type msg = ''request'' then
        (if command msg = Some ''setBreakpoints'' then on_arguments msg (hook_source sourceHook)
         else if command msg = Some ''breakpointLocations'' then on_arguments msg (hook_source sourceHook)
         else if command msg = Some ''source'' then on_arguments msg (hook_source sourceHook)
         else if command msg = Some ''gotoTargets'' then on_arguments msg (hook_source sourceHook)
         else Inr msg)
      else if msg_type msg = ''response'' then
        (if success msg \<and> body msg \<noteq> None then
           (if command msg = Some ''stackTrace'' then on_body msg (hook_stackFrames sourceHook)
            else if command msg = Some ''loadedSources'' then on_body msg (hook_sources sourceHook)
            else if command msg = Some ''scopes'' then on_body msg (hook_scopes sourceHook)
            else if command msg = Some ''setFunctionBreakpoints'' then on_body msg (hook_breakpoints sourceHook)
            else if command msg = Some ''setBreakpoints'' then on_body msg (hook_breakpoints sourceHook)
            else Inr msg)
         else Inr msg)
      else Inr msg)"

section \<open>Protocol bridge (XeusDebugAdapter)\<close>

text \<open>
  The two maps of one adapter. \<open>fileToCell\<close> holds references to cells: of a stored
  cell only the identity and the read-only address are read.
\<close>

record bridge =
  fileToCell :: "string \<rightharpoonup> notebook_cell"
  cellToFile :: "string \<rightharpoonup> string"

definition new_bridge :: bridge where
  "new_bridge = \<lparr>fileToCell = Map.empty, cellToFile = Map.empty\<rparr>"

text \<open>
  Modelled from the spec: the envelope constructors \<^verbatim>\<open>debugRequest\<close> and
  \<^verbatim>\<open>debugResponse\<close> of the messaging module, which wrap a protocol message as a
  debug-request or a debug-reply envelope for the kernel channel.
\<close>

datatype envelope = DebugRequest message | DebugReply message

datatype effect =
    CustomRequest string string
  | ConsoleLog string
  | SendRaw envelope
  | ConsoleAssert string
  | Fire message

text \<open>
  \<^verbatim>\<open>session.customRequest('dumpCell', { code })\<close> is decided by the host: it throws
  (\<open>Inl\<close>) or answers with a \<^verbatim>\<open>sourcePath\<close> (\<open>Inr\<close>).
\<close>

type_synonym dump_host = "string \<Rightarrow> string + string"

definition dumpCell ::
  "dump_host \<Rightarrow> notebook_document \<Rightarrow> bridge \<Rightarrow> string \<Rightarrow> bridge \<times> effect list" where
  "dumpCell host notebookDocument st uri =
     (case find (\<lambda>c. uri_toString (cell_uri c) = uri) (cells notebookDocument) of
        None \<Rightarrow> (st, [])
      | Some cell \<Rightarrow>
          (case host (cell_text cell) of
             Inr sourcePath \<Rightarrow>
               (st\<lparr>fileToCell := (fileToCell st)(sourcePath \<mapsto> cell),
                   cellToFile := (cellToFile st)(uri_toString (cell_uri cell) \<mapsto> sourcePath)\<rparr>,
                [CustomRequest ''dumpCell'' (cell_text cell)])
           | Inl err \<Rightarrow>
               (st, [CustomRequest ''dumpCell'' (cell_text cell), ConsoleLog err])))"

text \<open>The hook of \<^verbatim>\<open>handleMessage\<close>: source paths from the editor to the kernel.\<close>

definition toKernel_hook :: "bridge \<Rightarrow> source_hook" where
  "toKernel_hook st source =
     (case src_path source of
        None \<Rightarrow> source
      | Some sp \<Rightarrow>
          if sp = [] then source
          else (case cellToFile st sp of
                  None \<Rightarrow> source
                | Some p \<Rightarrow> if p = [] then source else source\<lparr>src_path := Some p\<rparr>))"

definition is_cell_address :: "string \<Rightarrow> bool" where
  "is_cell_address p = (take (length ''vscode-notebook-cell:'') p = ''vscode-notebook-cell:'')"

text \<open>
  \<^verbatim>\<open>handleMessage(message)\<close>: the adapter after the call, what the call did in order,
  and the exception it ended with, if any.
\<close>

definition intercept ::
  "dump_host \<Rightarrow> notebook_document \<Rightarrow> bridge \<Rightarrow> message \<Rightarrow> error + bridge \<times> effect list" where
  "intercept host doc st message =
     (if msg_type message = ''request'' \<and> command message = Some ''setBreakpoints'' then
        (case arguments message of
           None \<Rightarrow> Inl TypeError
         | Some args \<Rightarrow>
             (case p_source args of
                None \<Rightarrow> Inr (st, [])
              | Some src \<Rightarrow>
                  (case src_path src of
                     None \<Rightarrow> Inr (st, [])
                   | Some sp \<Rightarrow>
                       if sp \<noteq> [] \<and> is_cell_address sp then Inr (dumpCell host doc st sp)
                       else Inr (st, []))))
      else Inr (st, []))"

definition dispatch :: "message \<Rightarrow> effect list" where
  "dispatch message =
     (if msg_type message = ''request'' then [SendRaw (DebugRequest message)]
      else if msg_type message = ''response'' then [SendRaw (DebugReply message)]
      else [ConsoleAssert (''Unknown message type to send '' @ msg_type message)])"

definition handleMessage ::
  "dump_host \<Rightarrow> notebook_document \<Rightarrow> bridge \<Rightarrow> message \<Rightarrow>
     bridge \<times> effect list \<times> error option" where
  "handleMessage host doc st message =
     (case intercept host doc st message of
        Inl e \<Rightarrow> (st, [], Some e)
      | Inr (st1, dumped) \<Rightarrow>
          (case visitSources (toKernel_hook st1) message of
             Inl e \<Rightarrow> (st1, dumped, Some e)
           | Inr message1 \<Rightarrow> (st1, dumped @ dispatch message1, None)))"

text \<open>\<^verbatim>\<open>cells.indexOf(cell)\<close>: the first position holding this cell object, or \<open>-1\<close>.\<close>

fun indexOf :: "notebook_cell list \<Rightarrow> notebook_cell \<Rightarrow> int" where
  "indexOf [] cell = - 1"
| "indexOf (c # cs) cell =
     (if cell_handle c = cell_handle cell then 0
      else (let i = indexOf cs cell in if i < 0 then - 1 else i + 1))"

text \<open>
  The hook of the kernel subscription: sources from the kernel to the editor.
  \<open>doc\<close> is the notebook of the cell (\<^verbatim>\<open>cell.notebook\<close>) as it is when the
  message arrives.
\<close>

definition toEditor_hook :: "bridge \<Rightarrow> notebook_document \<Rightarrow> source_hook" where
  "toEditor_hook st doc source =
     (case src_path source of
        None \<Rightarrow> source
      | Some sp \<Rightarrow>
          if sp = [] then source
          else (case fileToCell st sp of
                  None \<Rightarrow> source
                | Some cell \<Rightarrow>
                    (let name = basename (uri_path (cell_uri cell));
                         cellIndex = indexOf (cells doc) cell;
                         name' = (if cellIndex \<ge> 0
                                  then name @ '', Cell '' @ string_of_nat (nat (cellIndex + 1))
                                  else name)
                     in source\<lparr>src_name := Some name', src_path := Some (uri_toString (cell_uri cell))\<rparr>)))"

record jupyter_message =
  header_msg_type :: string
  content :: message

definition debugEvents :: "string list" where
  "debugEvents = [''debug_request'', ''debug_reply'', ''debug_event'']"

definition isDebugMessage :: "jupyter_message \<Rightarrow> bool" where
  "isDebugMessage msg = (header_msg_type msg \<in> set debugEvents)"

text \<open>The subscription's handler, behind the filter: what is fired to the editor.\<close>

definition on_kernel_message ::
  "bridge \<Rightarrow> notebook_document \<Rightarrow> jupyter_message \<Rightarrow> effect list \<times> error option" where
  "on_kernel_message st doc evt =
     (if isDebugMessage evt then
        (case visitSources (toEditor_hook st doc) (content evt) of
           Inl e \<Rightarrow> ([], Some e)
         | Inr m \<Rightarrow> ([Fire m], None))
      else ([], None))"

section \<open>Vocabulary of the properties\<close>

text \<open>
  Names for the expressions of \<^verbatim>\<open>fixBreakpoints\<close>: the address of a cell, the test
  \<^verbatim>\<open>pos !== ix\<close>, the replacement address, and the address of a stored breakpoint.
\<close>

definition cell_address :: "notebook_cell \<Rightarrow> string" where
  "cell_address cell = uri_toString (cell_uri cell)"

definition mismatched :: "notebook_cell \<Rightarrow> nat \<Rightarrow> bool" where
  "mismatched cell ix = (parseInt (uri_fragment (cell_uri cell)) \<noteq> Some (int ix))"

definition corrected :: "notebook_cell \<Rightarrow> nat \<Rightarrow> uri" where
  "corrected cell ix = (cell_uri cell)\<lparr>uri_fragment := padStart 8 (CHR ''0'') (string_of_nat ix)\<rparr>"

definition bp_location :: "breakpoint \<Rightarrow> location option" where
  "bp_location b =
     (case b of
        SourceBreakpoint loc en cond hit logm \<Rightarrow> Some loc
      | FunctionBreakpoint fn en cond hit logm \<Rightarrow> None)"

definition bp_address :: "breakpoint \<Rightarrow> string option" where
  "bp_address b = map_option (\<lambda>loc. uri_toString (loc_uri loc)) (bp_location b)"

text \<open>
  What the loop over the stored breakpoints does with one breakpoint: it is taken when it
  is a source breakpoint whose address is a key of the map, and then replaced by a new
  breakpoint at the URI the map gives, with the same range.
\<close>

definition stale :: "(string \<times> uri) list \<Rightarrow> breakpoint \<Rightarrow> bool" where
  "stale m b = (case bp_address b of None \<Rightarrow> False | Some a \<Rightarrow> map_of m a \<noteq> None)"

definition reanchor :: "(string \<times> uri) list \<Rightarrow> breakpoint \<Rightarrow> breakpoint" where
  "reanchor m b =
     (case b of
        SourceBreakpoint loc en cond hit logm \<Rightarrow>
          (case map_of m (uri_toString (loc_uri loc)) of
             Some s \<Rightarrow> new_SourceBreakpoint \<lparr>loc_uri = s, loc_range = loc_range loc\<rparr>
           | None \<Rightarrow> b)
      | FunctionBreakpoint fn en cond hit logm \<Rightarrow> b)"

section \<open>Concrete documents and stores\<close>

definition example_uri :: "string \<Rightarrow> uri" where
  "example_uri frag =
     \<lparr>uri_scheme = ''vscode-notebook-cell'', uri_authority = [], uri_path = ''/work/nb.ipynb'',
      uri_query = [], uri_fragment = frag\<rparr>"

definition example_cell :: "nat \<Rightarrow> string \<Rightarrow> string \<Rightarrow> notebook_cell" where
  "example_cell h frag txt =
     \<lparr>cell_handle = h, cell_uri = example_uri frag, cellKind = Code, cell_text = txt,
      breakpointMargin = None\<rparr>"

definition example_doc :: "notebook_cell list \<Rightarrow> notebook_document" where
  "example_doc cs =
     \<lparr>doc_handle = 0,
      doc_uri = \<lparr>uri_scheme = ''file'', uri_authority = [], uri_path = ''/work/nb.ipynb'',
                 uri_query = [], uri_fragment = []\<rparr>,
      fileName = ''/work/nb.ipynb'', cells = cs\<rparr>"

definition example_range :: range where
  "example_range = \<lparr>start_line = 3, start_character = 0, end_line = 3, end_character = 0\<rparr>"

text \<open>The first of three cells was deleted: the two left carry the fragments 1 and 2.\<close>

definition shifted_doc :: notebook_document where
  "shifted_doc =
     example_doc [example_cell 11 ''00000001'' ''x = 1'', example_cell 12 ''00000002'' ''y = 2'']"

text \<open>The middle of three cells was deleted: the two left carry the fragments 0 and 2.\<close>

definition gap_doc :: notebook_document where
  "gap_doc =
     example_doc [example_cell 10 ''00000000'' ''x = 1'', example_cell 12 ''00000002'' ''y = 2'']"

text \<open>
  A store with a disabled, conditional breakpoint in the cell of fragment 2 and a function
  breakpoint.
\<close>

definition example_store :: "breakpoint list" where
  "example_store =
     [SourceBreakpoint \<lparr>loc_uri = example_uri ''00000002'', loc_range = example_range\<rparr>
        False (Some ''y > 1'') None None,
      FunctionBreakpoint ''main'' True None None None]"

section \<open>What the visitor visits\<close>

text \<open>
  The arguments the visitor passes to the hook, in the order of the calls: the visitor run
  with a hook that records its argument. A missing container, where the visitor throws,
  gives no call.
\<close>

definition body_sources :: "message \<Rightarrow> (payload \<Rightarrow> source option list) \<Rightarrow> source option list" where
  "body_sources msg f = (case body msg of None \<Rightarrow> [] | Some b \<Rightarrow> f b)"

definition arguments_sources :: "message \<Rightarrow> (payload \<Rightarrow> source option list) \<Rightarrow> source option list" where
  "arguments_sources msg f = (case arguments msg of None \<Rightarrow> [] | Some a \<Rightarrow> f a)"

definition get_source :: "payload \<Rightarrow> source option list" where
  "get_source p = [p_source p]"

definition get_breakpoint :: "payload \<Rightarrow> source option list" where
  "get_breakpoint p = (case p_breakpoint p of None \<Rightarrow> [] | Some bp \<Rightarrow> [bp_source bp])"

definition get_stackFrames :: "payload \<Rightarrow> source option list" where
  "get_stackFrames p = (case p_stackFrames p of None \<Rightarrow> [] | Some frames \<Rightarrow> map frame_source frames)"

definition get_sources :: "payload \<Rightarrow> source option list" where
  "get_sources p = (case p_sources p of None \<Rightarrow> [] | Some sources \<Rightarrow> map Some sources)"

definition get_scopes :: "payload \<Rightarrow> source option list" where
  "get_scopes p = (case p_scopes p of None \<Rightarrow> [] | Some scopes \<Rightarrow> map scope_source scopes)"

definition get_breakpoints :: "payload \<Rightarrow> source option list" where
  "get_breakpoints p = (case p_breakpoints p of None \<Rightarrow> [] | Some bps \<Rightarrow> map bp_source bps)"

definition visited :: "message \<Rightarrow> source option list" where
  "visited msg =
     (if msg_type msg = ''event'' then
        (if event msg = Some ''output'' then body_sources msg get_source
         else if event msg = Some ''loadedSource'' then body_sources msg get_source
         else if event msg = Some ''breakpoint'' then body_sources msg get_breakpoint
         else [])
      else if msg_type msg = ''request'' then
        (if command msg = Some ''setBreakpoints'' then arguments_sources msg get_source
         else if command msg = Some ''breakpointLocations'' then arguments_sources msg get_source
         else if command msg = Some ''source'' then arguments_sources msg get_source
         else if command msg = Some ''gotoTargets'' then arguments_sources msg get_source
         else [])
      else if msg_type msg = ''response'' then
        (if success msg \<and> body msg \<noteq> None then
           (if command msg = Some ''stackTrace'' then body_sources msg get_stackFrames
            else if command msg = Some ''loadedSources'' then body_sources msg get_sources
            else if command msg = Some ''scopes'' then body_sources msg get_scopes
            else if command msg = Some ''setFunctionBreakpoints'' then body_sources msg get_breakpoints
            else if command msg = Some ''setBreakpoints'' then body_sources msg get_breakpoints
            else [])
         else [])
      else [])"

section \<open>The table of source locations\<close>

text \<open>
  The spec's table of reachable source locations: message kind, sub-kind, and the place
  of the source locations visited.
\<close>

datatype slot =
    Body_source
  | Body_breakpoint_source
  | Arguments_source
  | Body_stackFrames
  | Body_sources
  | Body_scopes
  | Body_breakpoints

definition source_table :: "((string \<times> string) \<times> slot) list" where
  "source_table =
     [((''event'', ''output''), Body_source),
      ((''event'', ''loadedSource''), Body_source),
      ((''event'', ''breakpoint''), Body_breakpoint_source),
      ((''request'', ''setBreakpoints''), Arguments_source),
      ((''request'', ''breakpointLocations''), Arguments_source),
      ((''request'', ''source''), Arguments_source),
      ((''request'', ''gotoTargets''), Arguments_source),
      ((''response'', ''stackTrace''), Body_stackFrames),
      ((''response'', ''loadedSources''), Body_sources),
      ((''response'', ''scopes''), Body_scopes),
      ((''response'', ''setFunctionBreakpoints''), Body_breakpoints),
      ((''response'', ''setBreakpoints''), Body_breakpoints)]"

definition sub_kind :: "message \<Rightarrow> string option" where
  "sub_kind msg = (if msg_type msg = ''event'' then event msg else command msg)"

text \<open>The row of a message; an unsuccessful response has none.\<close>

definition table_slot :: "message \<Rightarrow> slot option" where
  "table_slot msg =
     (if msg_type msg = ''response'' \<and> \<not> success msg then None
      else case sub_kind msg of
             None \<Rightarrow> None
           | Some k \<Rightarrow> map_of source_table (msg_type msg, k))"

definition in_body :: "(payload \<Rightarrow> payload) \<Rightarrow> message \<Rightarrow> message" where
  "in_body f msg = msg\<lparr>body := map_option f (body msg)\<rparr>"

definition in_arguments :: "(payload \<Rightarrow> payload) \<Rightarrow> message \<Rightarrow> message" where
  "in_arguments f msg = msg\<lparr>arguments := map_option f (arguments msg)\<rparr>"

text \<open>The hook applied to every source location of a place, and to nothing else.\<close>

fun visit_slot :: "source_hook \<Rightarrow> slot \<Rightarrow> message \<Rightarrow> message" where
  "visit_slot h Body_source =
     in_body (\<lambda>b. b\<lparr>p_source := map_option h (p_source b)\<rparr>)"
| "visit_slot h Body_breakpoint_source =
     in_body (\<lambda>b. b\<lparr>p_breakpoint :=
       map_option (\<lambda>bp. bp\<lparr>bp_source := map_option h (bp_source bp)\<rparr>) (p_breakpoint b)\<rparr>)"
| "visit_slot h Arguments_source =
     in_arguments (\<lambda>a. a\<lparr>p_source := map_option h (p_source a)\<rparr>)"
| "visit_slot h Body_stackFrames =
     in_body (\<lambda>b. b\<lparr>p_stackFrames :=
       map_option (map (\<lambda>f. f\<lparr>frame_source := map_option h (frame_source f)\<rparr>)) (p_stackFrames b)\<rparr>)"
| "visit_slot h Body_sources =
     in_body (\<lambda>b. b\<lparr>p_sources := map_option (map h) (p_sources b)\<rparr>)"
| "visit_slot h Body_scopes =
     in_body (\<lambda>b. b\<lparr>p_scopes :=
       map_option (map (\<lambda>s. s\<lparr>scope_source := map_option h (scope_source s)\<rparr>)) (p_scopes b)\<rparr>)"
| "visit_slot h Body_breakpoints =
     in_body (\<lambda>b. b\<lparr>p_breakpoints :=
       map_option (map (\<lambda>bp. bp\<lparr>bp_source := map_option h (bp_source bp)\<rparr>)) (p_breakpoints b)\<rparr>)"

definition table_visit :: "source_hook \<Rightarrow> message \<Rightarrow> message" where
  "table_visit h msg = (case table_slot msg of None \<Rightarrow> msg | Some s \<Rightarrow> visit_slot h s msg)"

text \<open>
  A message conforms to the protocol's schema where the visitor reads it: the container
  of its row is present (the body of a response may be absent).
\<close>

fun slot_present :: "slot \<Rightarrow> message \<Rightarrow> bool" where
  "slot_present Body_source msg = (body msg \<noteq> None)"
| "slot_present Body_breakpoint_source msg =
     (case body msg of None \<Rightarrow> False | Some b \<Rightarrow> p_breakpoint b \<noteq> None)"
| "slot_present Arguments_source msg = (arguments msg \<noteq> None)"
| "slot_present Body_stackFrames msg =
     (case body msg of None \<Rightarrow> True | Some b \<Rightarrow> p_stackFrames b \<noteq> None)"
| "slot_present Body_sources msg =
     (case body msg of None \<Rightarrow> True | Some b \<Rightarrow> p_sources b \<noteq> None)"
| "slot_present Body_scopes msg =
     (case body msg of None \<Rightarrow> True | Some b \<Rightarrow> p_scopes b \<noteq> None)"
| "slot_present Body_breakpoints msg =
     (case body msg of None \<Rightarrow> True | Some b \<Rightarrow> p_breakpoints b \<noteq> None)"

definition wf_message :: "message \<Rightarrow> bool" where
  "wf_message msg = (case table_slot msg of None \<Rightarrow> True | Some s \<Rightarrow> slot_present s msg)"

text \<open>The visitor and the recorded arguments, by place.\<close>

fun code_slot :: "source_hook \<Rightarrow> slot \<Rightarrow> message \<Rightarrow> error + message" where
  "code_slot h Body_source msg = on_body msg (hook_source h)"
| "code_slot h Body_breakpoint_source msg = on_body msg (hook_breakpoint h)"
| "code_slot h Arguments_source msg = on_arguments msg (hook_source h)"
| "code_slot h Body_stackFrames msg =
     (if body msg = None then Inr msg else on_body msg (hook_stackFrames h))"
| "code_slot h Body_sources msg =
     (if body msg = None then Inr msg else on_body msg (hook_sources h))"
| "code_slot h Body_scopes msg =
     (if body msg = None then Inr msg else on_body msg (hook_scopes h))"
| "code_slot h Body_breakpoints msg =
     (if body msg = None then Inr msg else on_body msg (hook_breakpoints h))"

fun get_slot :: "slot \<Rightarrow> message \<Rightarrow> source option list" where
  "get_slot Body_source msg = body_sources msg get_source"
| "get_slot Body_breakpoint_source msg = body_sources msg get_breakpoint"
| "get_slot Arguments_source msg = arguments_sources msg get_source"
| "get_slot Body_stackFrames msg = body_sources msg get_stackFrames"
| "get_slot Body_sources msg = body_sources msg get_sources"
| "get_slot Body_scopes msg = body_sources msg get_scopes"
| "get_slot Body_breakpoints msg = body_sources msg get_breakpoints"

section \<open>Sequences of materializations\<close>

definition envelope_message :: "envelope \<Rightarrow> message" where
  "envelope_message env = (case env of DebugRequest m \<Rightarrow> m | DebugReply m \<Rightarrow> m)"

text \<open>A sequence of materializations on one adapter; host and document may change between them.\<close>

fun dumpCells :: "(dump_host \<times> notebook_document \<times> string) list \<Rightarrow> bridge \<Rightarrow> bridge" where
  "dumpCells [] st = st"
| "dumpCells ((host, doc, uri) # rest) st = dumpCells rest (fst (dumpCell host doc st uri))"

text \<open>What one materialization records: address, file and cell; nothing when it fails.\<close>

definition recorded :: "dump_host \<times> notebook_document \<times> string \<Rightarrow> (string \<times> string \<times> notebook_cell) option" where
  "recorded step =
     (case step of (host, doc, uri) \<Rightarrow>
        (case find (\<lambda>c. uri_toString (cell_uri c) = uri) (cells doc) of
           None \<Rightarrow> None
         | Some cell \<Rightarrow>
             (case host (cell_text cell) of
                Inl err \<Rightarrow> None
              | Inr sourcePath \<Rightarrow> Some (uri_toString (cell_uri cell), sourcePath, cell))))"

definition one_to_one :: "(string \<times> string \<times> notebook_cell) list \<Rightarrow> bool" where
  "one_to_one ws =
     list_all (\<lambda>(a, f, c). list_all (\<lambda>(a', f', c'). (a = a') = (f = f')) ws) ws"

section \<open>Concrete hosts, messages and adapters\<close>

definition example_host :: dump_host where
  "example_host code = Inr (''/tmp/xeus_'' @ string_of_nat (length code) @ ''.py'')"

definition failing_host :: dump_host where
  "failing_host code = Inl ''dumpCell is not supported''"

definition example_source :: "string \<Rightarrow> source" where
  "example_source p = \<lparr>src_name = None, src_path = Some p, sourceReference = None\<rparr>"

definition empty_payload :: payload where
  "empty_payload =
     \<lparr>p_source = None, p_breakpoint = None, p_stackFrames = None, p_sources = None,
      p_scopes = None, p_breakpoints = None, p_rest = []\<rparr>"

definition setBreakpoints_request :: "string \<Rightarrow> message" where
  "setBreakpoints_request p =
     \<lparr>seq = 7, msg_type = ''request'', event = None, command = Some ''setBreakpoints'',
      success = False, body = None,
      arguments = Some (empty_payload\<lparr>p_source := Some (example_source p)\<rparr>)\<rparr>"

definition loadedSource_event :: "string \<Rightarrow> message" where
  "loadedSource_event p =
     \<lparr>seq = 8, msg_type = ''event'', event = Some ''loadedSource'', command = None,
      success = False,
      body = Some (empty_payload\<lparr>p_source := Some (example_source p)\<rparr>),
      arguments = None\<rparr>"

definition stackTrace_response :: "bool \<Rightarrow> string \<Rightarrow> message" where
  "stackTrace_response ok p =
     \<lparr>seq = 9, msg_type = ''response'', event = None, command = Some ''stackTrace'',
      success = ok,
      body = Some (empty_payload\<lparr>p_stackFrames :=
        Some [\<lparr>frame_id = 1, frame_name = ''f'', frame_source = Some (example_source p),
               frame_line = 2\<rparr>,
              \<lparr>frame_id = 2, frame_name = ''<module>'', frame_source = None, frame_line = 5\<rparr>]\<rparr>),
      arguments = None\<rparr>"

definition stopped_event :: message where
  "stopped_event =
     \<lparr>seq = 10, msg_type = ''event'', event = Some ''stopped'', command = None,
      success = False, body = Some (empty_payload\<lparr>p_rest := ''breakpoint''\<rparr>),
      arguments = None\<rparr>"



definition debug_event :: "message \<Rightarrow> jupyter_message" where
  "debug_event m = \<lparr>header_msg_type = ''debug_event'', content = m\<rparr>"

text \<open>
  A document of three cells, and the adapter after the breakpoints of its third cell were
  set. In \<open>gap_doc\<close> the second cell is gone and the third is at index 1; in
  \<open>short_doc\<close> the third cell is gone as well.
\<close>

definition three_doc :: notebook_document where
  "three_doc =
     example_doc [example_cell 10 ''00000000'' ''x = 1'', example_cell 11 ''00000001'' ''print(x)'',
                  example_cell 12 ''00000002'' ''y = 2'']"


definition example_bridge :: bridge where
  "example_bridge =
     fst (handleMessage example_host three_doc new_bridge
            (setBreakpoints_request (uri_toString (example_uri ''00000002''))))"

text \<open>Two cells with the same text, for which the host names the same file.\<close>

definition twin_doc :: notebook_document where
  "twin_doc =
     example_doc [example_cell 20 ''00000000'' ''x = 1'', example_cell 21 ''00000001'' ''x = 1'']"

text \<open>A session start that the host rejects, and a manager with no session.\<close>

definition failing_env :: host_env where
  "failing_env =
     \<lparr>activeDebugSession = None, getDocumentKernel = Returns,
      session_outcome = Rejected ''Error: Kernel appears to have been stopped''\<rparr>"

definition new_manager :: manager where
  "new_manager = \<lparr>notebookToDebugger = Map.empty\<rparr>"

text \<open>A hook that marks every source it is given.\<close>

definition rename_hook :: source_hook where
  "rename_hook src = src\<lparr>src_name := Some ''visited''\<rparr>"

text \<open>
  Materializations on one adapter: a failed one and two that succeed for different cells;
  and the two that succeed for the cells of \<open>twin_doc\<close>.
\<close>

definition example_steps :: "(dump_host \<times> notebook_document \<times> string) list" where
  "example_steps =
     [(failing_host, three_doc, ''vscode-notebook-cell:/work/nb.ipynb#00000002''),
      (example_host, three_doc, ''vscode-notebook-cell:/work/nb.ipynb#00000002''),
      (example_host, three_doc, ''vscode-notebook-cell:/work/nb.ipynb#00000001'')]"

definition twin_steps :: "(dump_host \<times> notebook_document \<times> string) list" where
  "twin_steps =
     [(example_host, twin_doc, ''vscode-notebook-cell:/work/nb.ipynb#00000000''),
      (example_host, twin_doc, ''vscode-notebook-cell:/work/nb.ipynb#00000001'')]"

section \<open>Consistency of the two maps\<close>

text \<open>
  The two consistency properties of an adapter's maps: every entry of one map has an
  entry in the other; and the entries pair up.
\<close>

definition linked :: "bridge \<Rightarrow> bool" where
  "linked st \<longleftrightarrow>
     (\<forall>a f. cellToFile st a = Some f \<longrightarrow> (\<exists>c. fileToCell st f = Some c)) \<and>
     (\<forall>f c. fileToCell st f = Some c \<longrightarrow> (\<exists>f'. cellToFile st (uri_toString (cell_uri c)) = Some f'))"

definition paired :: "bridge \<Rightarrow> bool" where
  "paired st \<longleftrightarrow>
     (\<forall>a f. cellToFile st a = Some f \<longleftrightarrow>
        (\<exists>c. fileToCell st f = Some c \<and> uri_toString (cell_uri c) = a))"

section \<open>Properties of the breakpoint repair\<close>

lemma stale_map_step:
  "stale_map (cell # rest) ix m =
     stale_map rest (Suc ix)
       (if mismatched cell ix then AList.update (cell_address cell) (corrected cell ix) m else m)"
  by (simp add: mismatched_def corrected_def cell_address_def)

lemma ex_less_Cons:
  "(\<exists>i<length (c # cs). P i) \<longleftrightarrow> P 0 \<or> (\<exists>i<length cs. P (Suc i))"
  by (metis (no_types, lifting) length_Cons less_Suc_eq_0_disj)

lemma stale_map_dom:
  "map_of (stale_map cs ix m) a \<noteq> None \<longleftrightarrow>
     map_of m a \<noteq> None \<or>
     (\<exists>i<length cs. mismatched (cs ! i) (ix + i) \<and> cell_address (cs ! i) = a)"
proof (induction cs arbitrary: ix m)
  case Nil
  then show ?case by simp
next
  case (Cons c cs)
  show ?case
    unfolding stale_map_step Cons.IH ex_less_Cons
    by (auto simp: update_conv')
qed

lemma stale_map_value:
  "map_of (stale_map cs ix m) k = Some v \<Longrightarrow>
     map_of m k = Some v \<or>
     (\<exists>i<length cs. mismatched (cs ! i) (ix + i) \<and> k = cell_address (cs ! i) \<and>
        v = corrected (cs ! i) (ix + i))"
proof (induction cs arbitrary: ix m)
  case Nil
  then show ?case by simp
next
  case (Cons c cs)
  from Cons.prems have
    "map_of (stale_map cs (Suc ix)
       (if mismatched c ix then AList.update (cell_address c) (corrected c ix) m else m)) k = Some v"
    by (simp add: stale_map_step del: stale_map.simps)
  from Cons.IH[OF this] show ?case
    unfolding ex_less_Cons
    by (auto simp: update_conv' split: if_splits)
qed

lemma all_less_Cons:
  "(\<forall>j<length (c # cs). P j) \<longleftrightarrow> P 0 \<and> (\<forall>j<length cs. P (Suc j))"
  by (metis (no_types, lifting) length_Cons less_Suc_eq_0_disj)

lemma stale_map_last:
  "map_of (stale_map cs ix m) a = Some v \<Longrightarrow>
     (\<exists>i<length cs. mismatched (cs ! i) (ix + i) \<and> cell_address (cs ! i) = a \<and>
        v = corrected (cs ! i) (ix + i) \<and>
        (\<forall>j<length cs. i < j \<and> mismatched (cs ! j) (ix + j) \<longrightarrow> cell_address (cs ! j) \<noteq> a))
     \<or> (map_of m a = Some v \<and>
        (\<forall>j<length cs. mismatched (cs ! j) (ix + j) \<longrightarrow> cell_address (cs ! j) \<noteq> a))"
proof (induction cs arbitrary: ix m)
  case Nil
  then show ?case by simp
next
  case (Cons c cs)
  let ?m = "if mismatched c ix then AList.update (cell_address c) (corrected c ix) m else m"
  from Cons.prems have "map_of (stale_map cs (Suc ix) ?m) a = Some v"
    by (simp add: stale_map_step del: stale_map.simps)
  from Cons.IH[OF this] show ?case
  proof
    assume "\<exists>i<length cs. mismatched (cs ! i) (Suc ix + i) \<and> cell_address (cs ! i) = a \<and>
        v = corrected (cs ! i) (Suc ix + i) \<and>
        (\<forall>j<length cs. i < j \<and> mismatched (cs ! j) (Suc ix + j) \<longrightarrow> cell_address (cs ! j) \<noteq> a)"
    then obtain i where i: "i < length cs" "mismatched (cs ! i) (Suc ix + i)"
      "cell_address (cs ! i) = a" "v = corrected (cs ! i) (Suc ix + i)"
      "\<forall>j<length cs. i < j \<and> mismatched (cs ! j) (Suc ix + j) \<longrightarrow> cell_address (cs ! j) \<noteq> a"
      by blast
    have "Suc i < length (c # cs) \<and> mismatched ((c # cs) ! Suc i) (ix + Suc i) \<and>
        cell_address ((c # cs) ! Suc i) = a \<and> v = corrected ((c # cs) ! Suc i) (ix + Suc i) \<and>
        (\<forall>j<length (c # cs). Suc i < j \<and> mismatched ((c # cs) ! j) (ix + j) \<longrightarrow>
           cell_address ((c # cs) ! j) \<noteq> a)"
      using i unfolding all_less_Cons by simp
    then show ?thesis by blast
  next
    assume r: "map_of ?m a = Some v \<and>
        (\<forall>j<length cs. mismatched (cs ! j) (Suc ix + j) \<longrightarrow> cell_address (cs ! j) \<noteq> a)"
    show ?thesis
    proof (cases "mismatched c ix \<and> cell_address c = a")
      case True
      with r have "0 < length (c # cs) \<and> mismatched ((c # cs) ! 0) (ix + 0) \<and>
        cell_address ((c # cs) ! 0) = a \<and> v = corrected ((c # cs) ! 0) (ix + 0) \<and>
        (\<forall>j<length (c # cs). 0 < j \<and> mismatched ((c # cs) ! j) (ix + j) \<longrightarrow>
           cell_address ((c # cs) ! j) \<noteq> a)"
        unfolding all_less_Cons by (simp add: update_conv')
      then show ?thesis by blast
    next
      case False
      with r have "map_of m a = Some v \<and>
        (\<forall>j<length (c # cs). mismatched ((c # cs) ! j) (ix + j) \<longrightarrow> cell_address ((c # cs) ! j) \<noteq> a)"
        unfolding all_less_Cons by (auto simp: update_conv' split: if_splits)
      then show ?thesis by blast
    qed
  qed
qed

lemma scan_breakpoints_eq:
  "scan_breakpoints m bs = (filter (stale m) bs, map (reanchor m) (filter (stale m) bs))"
  by (induction bs)
     (auto simp: stale_def reanchor_def bp_address_def bp_location_def
           split: breakpoint.splits option.splits)

lemma fixBreakpoints_eq:
  "fixBreakpoints doc bs =
     (let m = stale_map (cells doc) 0 []; removed = filter (stale m) bs in
      if removed = [] then []
      else [RemoveBreakpoints removed, AddBreakpoints (map (reanchor m) removed)])"
proof -
  have "filter (stale []) bs = []"
    by (induction bs) (auto simp: stale_def split: option.splits)
  then show ?thesis
    by (auto simp: fixBreakpoints_def scan_breakpoints_eq Let_def)
qed

lemma run_fixBreakpoints_eq:
  "run_fixBreakpoints doc store =
     (let m = stale_map (cells doc) 0 []; removed = filter (stale m) store in
      if removed = [] then store
      else filter (\<lambda>b. b \<notin> set removed) store @ map (reanchor m) removed)"
  by (simp add: run_fixBreakpoints_def fixBreakpoints_eq Let_def)

lemma length_string_of_nat: "n < 10 ^ k \<Longrightarrow> 0 < k \<Longrightarrow> length (string_of_nat n) \<le> k"
proof (induction n arbitrary: k rule: string_of_nat.induct)
  case (1 n)
  show ?case
  proof (cases "n < 10")
    case True
    with 1 show ?thesis by (subst string_of_nat.simps) simp
  next
    case False
    with "1.prems" obtain k' where k: "k = Suc k'" "0 < k'"
      by (cases k; cases "k - 1") auto
    with "1.prems" have "n div 10 < 10 ^ k'"
      by (simp add: less_mult_imp_div_less mult.commute)
    with 1 False k have "length (string_of_nat (n div 10)) \<le> k'" by simp
    with False k show ?thesis by (subst string_of_nat.simps) simp
  qed
qed

lemma padStart_width: "n < 100000000 \<Longrightarrow> length (padStart 8 (CHR ''0'') (string_of_nat n)) = 8"
  using length_string_of_nat[of n 8] by (simp add: padStart_def)

lemma stale_iff:
  "stale (stale_map (cells doc) 0 []) b \<longleftrightarrow>
     (\<exists>i<length (cells doc). mismatched (cells doc ! i) i \<and> bp_address b = Some (cell_address (cells doc ! i)))"
  using stale_map_dom[of "cells doc" 0 "[]"]
  by (cases "bp_address b") (auto simp: stale_def)

lemma gap_fix:
  "fixBreakpoints gap_doc example_store =
     [RemoveBreakpoints
        [SourceBreakpoint \<lparr>loc_uri = example_uri ''00000002'', loc_range = example_range\<rparr>
           False (Some ''y > 1'') None None],
      AddBreakpoints
        [SourceBreakpoint \<lparr>loc_uri = example_uri ''00000001'', loc_range = example_range\<rparr>
           True None None None]]"
  by code_simp

text \<open>
  Claim C8. The repair removes exactly the stored source breakpoints whose address is the
  address of a cell whose fragment does not parse to its index, in one call, and adds, in
  one call and in the same order, one breakpoint for each of them: at the URI of that cell
  with the fragment replaced by the index, zero-padded to 8 digits (8 characters for
  every index below \<open>10 ^ 8\<close>), and with the range of the breakpoint it replaces.
  Should several mismatched cells share the address, the last of them gives the URI.
\<close>

theorem fixBreakpoints_reanchors:
  "\<exists>removed added.
      fixBreakpoints doc bps =
        (if removed = [] then [] else [RemoveBreakpoints removed, AddBreakpoints added])
    \<and> removed = filter (\<lambda>b. \<exists>i<length (cells doc). mismatched (cells doc ! i) i \<and>
                    bp_address b = Some (cell_address (cells doc ! i))) bps
    \<and> length added = length removed
    \<and> (\<forall>k<length removed. \<exists>loc i.
          bp_location (removed ! k) = Some loc \<and>
          i < length (cells doc) \<and> mismatched (cells doc ! i) i \<and>
          uri_toString (loc_uri loc) = cell_address (cells doc ! i) \<and>
          (\<forall>j<length (cells doc). i < j \<and> mismatched (cells doc ! j) j \<longrightarrow>
             cell_address (cells doc ! j) \<noteq> cell_address (cells doc ! i)) \<and>
          added ! k = new_SourceBreakpoint
            \<lparr>loc_uri = (cell_uri (cells doc ! i))
                \<lparr>uri_fragment := padStart 8 (CHR ''0'') (string_of_nat i)\<rparr>,
             loc_range = loc_range loc\<rparr>)
    \<and> (\<forall>i<length (cells doc). i < 100000000 \<longrightarrow>
          length (padStart 8 (CHR ''0'') (string_of_nat i)) = 8)"
proof -
  define m where "m = stale_map (cells doc) 0 []"
  define removed where "removed = filter (stale m) bps"
  define added where "added = map (reanchor m) removed"
  have 1: "fixBreakpoints doc bps =
        (if removed = [] then [] else [RemoveBreakpoints removed, AddBreakpoints added])"
    by (simp add: fixBreakpoints_eq Let_def m_def removed_def added_def)
  have 2: "removed = filter (\<lambda>b. \<exists>i<length (cells doc). mismatched (cells doc ! i) i \<and>
                    bp_address b = Some (cell_address (cells doc ! i))) bps"
    unfolding removed_def m_def using stale_iff[of doc] by presburger
  have 3: "length added = length removed"
    by (simp add: added_def)
  have 4: "\<exists>loc i.
          bp_location (removed ! k) = Some loc \<and>
          i < length (cells doc) \<and> mismatched (cells doc ! i) i \<and>
          uri_toString (loc_uri loc) = cell_address (cells doc ! i) \<and>
          (\<forall>j<length (cells doc). i < j \<and> mismatched (cells doc ! j) j \<longrightarrow>
             cell_address (cells doc ! j) \<noteq> cell_address (cells doc ! i)) \<and>
          added ! k = new_SourceBreakpoint
            \<lparr>loc_uri = (cell_uri (cells doc ! i))
                \<lparr>uri_fragment := padStart 8 (CHR ''0'') (string_of_nat i)\<rparr>,
             loc_range = loc_range loc\<rparr>"
    if k: "k < length removed" for k
  proof -
    from k have "removed ! k \<in> set removed" by simp
    then have "stale m (removed ! k)" by (simp add: removed_def)
    then obtain loc en cond hit logm s where b: "removed ! k = SourceBreakpoint loc en cond hit logm"
      and s: "map_of m (uri_toString (loc_uri loc)) = Some s"
      by (cases "removed ! k") (auto simp: stale_def bp_address_def bp_location_def)
    from stale_map_last[OF s[unfolded m_def]] obtain i where
      i: "i < length (cells doc)" "mismatched (cells doc ! i) i"
        "cell_address (cells doc ! i) = uri_toString (loc_uri loc)" "s = corrected (cells doc ! i) i"
        "\<forall>j<length (cells doc). i < j \<and> mismatched (cells doc ! j) j \<longrightarrow>
           cell_address (cells doc ! j) \<noteq> uri_toString (loc_uri loc)"
      by auto
    from b s k have "added ! k = new_SourceBreakpoint \<lparr>loc_uri = s, loc_range = loc_range loc\<rparr>"
      by (simp add: added_def reanchor_def)
    with b i show ?thesis
      by (intro exI[of _ loc] exI[of _ i]) (simp add: bp_location_def corrected_def)
  qed
  have 5: "\<forall>i<length (cells doc). i < 100000000 \<longrightarrow>
          length (padStart 8 (CHR ''0'') (string_of_nat i)) = 8"
    by (simp add: padStart_width)
  from 1 2 3 4 5 show ?thesis by blast
qed

theorem fixBreakpoints_reanchors_witness:
  "fixBreakpoints gap_doc example_store =
     [RemoveBreakpoints
        [SourceBreakpoint \<lparr>loc_uri = example_uri ''00000002'', loc_range = example_range\<rparr>
           False (Some ''y > 1'') None None],
      AddBreakpoints
        [SourceBreakpoint \<lparr>loc_uri = example_uri ''00000001'', loc_range = example_range\<rparr>
           True None None None]]"
  using fixBreakpoints_reanchors[of gap_doc example_store] gap_fix
  by simp

text \<open>
  Claim C10. Every breakpoint the repair removes is a source breakpoint of the store, every
  breakpoint it adds is a source breakpoint built from a location alone (enabled, with no
  condition, hit condition or log message, whatever the replaced breakpoint had), and the
  breakpoints of the store that are not source breakpoints are the same after the repair.
\<close>

theorem fixBreakpoints_source_only:
  "(\<forall>rm. RemoveBreakpoints rm \<in> set (fixBreakpoints doc bps) \<longrightarrow>
      (\<forall>b\<in>set rm. b \<in> set bps \<and> (\<exists>loc en cond hit logm. b = SourceBreakpoint loc en cond hit logm)))
 \<and> (\<forall>add. AddBreakpoints add \<in> set (fixBreakpoints doc bps) \<longrightarrow>
      (\<forall>b\<in>set add. \<exists>loc. b = SourceBreakpoint loc True None None None))
 \<and> filter (\<lambda>b. bp_location b = None) (run_fixBreakpoints doc bps)
      = filter (\<lambda>b. bp_location b = None) bps"
proof -
  define m where "m = stale_map (cells doc) 0 []"
  have src: "\<exists>loc en cond hit logm. b = SourceBreakpoint loc en cond hit logm" if "stale m b" for b
    using that by (cases b) (auto simp: stale_def bp_address_def bp_location_def)
  have new: "\<exists>loc. reanchor m b = SourceBreakpoint loc True None None None" if "stale m b" for b
    using that by (cases b)
      (auto simp: stale_def reanchor_def bp_address_def bp_location_def new_SourceBreakpoint_def)
  have a: "\<forall>rm. RemoveBreakpoints rm \<in> set (fixBreakpoints doc bps) \<longrightarrow>
      (\<forall>b\<in>set rm. b \<in> set bps \<and> (\<exists>loc en cond hit logm. b = SourceBreakpoint loc en cond hit logm))"
    using src by (auto simp: fixBreakpoints_eq Let_def m_def split: if_splits)
  have b: "\<forall>add. AddBreakpoints add \<in> set (fixBreakpoints doc bps) \<longrightarrow>
      (\<forall>b\<in>set add. \<exists>loc. b = SourceBreakpoint loc True None None None)"
    using new by (auto simp: fixBreakpoints_eq Let_def m_def split: if_splits)
  have nl: "bp_location b = None \<Longrightarrow> \<not> stale m b" for b
    by (simp add: stale_def bp_address_def)
  have nr: "stale m b \<Longrightarrow> bp_location (reanchor m b) \<noteq> None" for b
    using new[of b] by (auto simp: bp_location_def)
  have f1: "filter (\<lambda>b. bp_location b = None) (filter (\<lambda>b. b \<notin> set (filter (stale m) bps)) bps)
            = filter (\<lambda>b. bp_location b = None) bps"
    using nl by (auto intro!: filter_cong)
  have f2: "filter (\<lambda>b. bp_location b = None) (map (reanchor m) (filter (stale m) bps)) = []"
    using nr by (auto simp: filter_empty_conv)
  have c: "filter (\<lambda>b. bp_location b = None) (run_fixBreakpoints doc bps)
      = filter (\<lambda>b. bp_location b = None) bps"
    using f1 f2 by (simp add: run_fixBreakpoints_eq Let_def m_def)
  from a b c show ?thesis by blast
qed

theorem fixBreakpoints_source_only_witness:
  "RemoveBreakpoints
        [SourceBreakpoint \<lparr>loc_uri = example_uri ''00000002'', loc_range = example_range\<rparr>
           False (Some ''y > 1'') None None] \<in> set (fixBreakpoints gap_doc example_store)
   \<and> AddBreakpoints
        [SourceBreakpoint \<lparr>loc_uri = example_uri ''00000001'', loc_range = example_range\<rparr>
           True None None None] \<in> set (fixBreakpoints gap_doc example_store)
   \<and> filter (\<lambda>b. bp_location b = None) (run_fixBreakpoints gap_doc example_store)
       = [FunctionBreakpoint ''main'' True None None None]"
proof -
  have e: "filter (\<lambda>b. bp_location b = None) example_store = [FunctionBreakpoint ''main'' True None None None]"
    by (simp add: example_store_def bp_location_def)
  from fixBreakpoints_source_only[of gap_doc example_store] gap_fix e show ?thesis
    by simp
qed

text \<open>
  Claim C4, as the code has it. The repair moves breakpoints and leaves the document as it
  is, so the cells it found mismatched are still mismatched on a second run. The second
  run issues no call when no replacement address is itself the address of a mismatched
  cell of the document.
\<close>

theorem fixBreakpoints_second_run:
  assumes "\<forall>i<length (cells doc). \<forall>j<length (cells doc).
             mismatched (cells doc ! i) i \<and> mismatched (cells doc ! j) j \<longrightarrow>
             uri_toString (corrected (cells doc ! i) i) \<noteq> cell_address (cells doc ! j)"
  shows "fixBreakpoints doc (run_fixBreakpoints doc store) = []"
proof -
  define m where "m = stale_map (cells doc) 0 []"
  define removed where "removed = filter (stale m) store"
  have run: "run_fixBreakpoints doc store =
      (if removed = [] then store
       else filter (\<lambda>b. b \<notin> set removed) store @ map (reanchor m) removed)"
    by (simp add: run_fixBreakpoints_eq Let_def m_def removed_def)
  have kept: "filter (stale m) (filter (\<lambda>b. b \<notin> set removed) store) = []"
    by (auto simp: removed_def filter_empty_conv)
  have moved: "\<not> stale m (reanchor m b)" if "b \<in> set removed" for b
  proof -
    from that have st: "stale m b" by (simp add: removed_def)
    then obtain loc en cond hit logm s where b: "b = SourceBreakpoint loc en cond hit logm"
      and s: "map_of m (uri_toString (loc_uri loc)) = Some s"
      by (cases b) (auto simp: stale_def bp_address_def bp_location_def)
    from s obtain i where i: "i < length (cells doc)" "mismatched (cells doc ! i) i"
      "s = corrected (cells doc ! i) i"
      using stale_map_value[of "cells doc" 0 "[]"] by (auto simp: m_def)
    have "map_of m (uri_toString s) = None"
    proof (rule ccontr)
      assume "map_of m (uri_toString s) \<noteq> None"
      then obtain j where "j < length (cells doc)" "mismatched (cells doc ! j) j"
        "cell_address (cells doc ! j) = uri_toString s"
        using stale_map_dom[of "cells doc" 0 "[]" "uri_toString s"] by (auto simp: m_def)
      with i assms show False by metis
    qed
    with b s show ?thesis
      by (simp add: reanchor_def stale_def bp_address_def bp_location_def new_SourceBreakpoint_def)
  qed
  then have added: "filter (stale m) (map (reanchor m) removed) = []"
    by (auto simp: filter_empty_conv)
  have "filter (stale m) (run_fixBreakpoints doc store) = []"
    using kept added by (auto simp: run removed_def)
  then show ?thesis
    by (simp add: fixBreakpoints_eq m_def Let_def)
qed

lemma gap_doc_mismatched:
  "\<not> mismatched (cells gap_doc ! 0) 0" "mismatched (cells gap_doc ! 1) 1"
  "uri_toString (corrected (cells gap_doc ! 1) 1) \<noteq> cell_address (cells gap_doc ! 1)"
  "length (cells gap_doc) = 2"
  by code_simp+

theorem fixBreakpoints_second_run_witness:
  "fixBreakpoints gap_doc example_store \<noteq> [] \<and>
   fixBreakpoints gap_doc (run_fixBreakpoints gap_doc example_store) = []"
proof -
  have h: "\<forall>i<length (cells gap_doc). \<forall>j<length (cells gap_doc).
             mismatched (cells gap_doc ! i) i \<and> mismatched (cells gap_doc ! j) j \<longrightarrow>
             uri_toString (corrected (cells gap_doc ! i) i) \<noteq> cell_address (cells gap_doc ! j)"
    using gap_doc_mismatched by (auto simp: less_Suc_eq numeral_2_eq_2)
  from fixBreakpoints_second_run[OF h, of example_store] gap_fix show ?thesis
    by simp
qed

text \<open>
  With the first of three cells deleted, the first run moves the breakpoint of the cell of
  fragment 2 to fragment 1, which is the address of the other mismatched cell: the second
  run, on the same document, moves it again.
\<close>

theorem fixBreakpoints_not_idempotent:
  "fixBreakpoints shifted_doc (run_fixBreakpoints shifted_doc example_store) =
     [RemoveBreakpoints
        [SourceBreakpoint \<lparr>loc_uri = example_uri ''00000001'', loc_range = example_range\<rparr>
           True None None None],
      AddBreakpoints
        [SourceBreakpoint \<lparr>loc_uri = example_uri ''00000000'', loc_range = example_range\<rparr>
           True None None None]]"
  by code_simp

section \<open>Properties of the source visitor\<close>

lemma on_body_sources:
  assumes "on_body msg f = Inr msg'"
    and "\<And>p p'. f p = Inr p' \<Longrightarrow> g p' = map (map_option h) (g p)"
  shows "body_sources msg' g = map (map_option h) (body_sources msg g)"
  using assms by (auto simp: on_body_def body_sources_def split: option.splits sum.splits)

lemma on_arguments_sources:
  assumes "on_arguments msg f = Inr msg'"
    and "\<And>p p'. f p = Inr p' \<Longrightarrow> g p' = map (map_option h) (g p)"
  shows "arguments_sources msg' g = map (map_option h) (arguments_sources msg g)"
  using assms by (auto simp: on_arguments_def arguments_sources_def split: option.splits sum.splits)

lemma on_body_frame:
  "on_body msg f = Inr msg' \<Longrightarrow>
     msg_type msg' = msg_type msg \<and> event msg' = event msg \<and> command msg' = command msg \<and>
     success msg' = success msg \<and> arguments msg' = arguments msg \<and> seq msg' = seq msg"
  by (auto simp: on_body_def split: option.splits sum.splits)

lemma on_arguments_frame:
  "on_arguments msg f = Inr msg' \<Longrightarrow>
     msg_type msg' = msg_type msg \<and> event msg' = event msg \<and> command msg' = command msg \<and>
     success msg' = success msg \<and> body msg' = body msg \<and> seq msg' = seq msg"
  by (auto simp: on_arguments_def split: option.splits sum.splits)

lemma hook_get:
  "hook_source h p = Inr p' \<Longrightarrow> get_source p' = map (map_option h) (get_source p)"
  "hook_breakpoint h p = Inr p' \<Longrightarrow> get_breakpoint p' = map (map_option h) (get_breakpoint p)"
  "hook_stackFrames h p = Inr p' \<Longrightarrow> get_stackFrames p' = map (map_option h) (get_stackFrames p)"
  "hook_sources h p = Inr p' \<Longrightarrow> get_sources p' = map (map_option h) (get_sources p)"
  "hook_scopes h p = Inr p' \<Longrightarrow> get_scopes p' = map (map_option h) (get_scopes p)"
  "hook_breakpoints h p = Inr p' \<Longrightarrow> get_breakpoints p' = map (map_option h) (get_breakpoints p)"
  by (auto simp: hook_source_def get_source_def hook_breakpoint_def get_breakpoint_def
        hook_stackFrames_def get_stackFrames_def hook_sources_def get_sources_def
        hook_scopes_def get_scopes_def hook_breakpoints_def get_breakpoints_def
      split: option.splits)

lemma table_slot_event:
  assumes "msg_type msg = ''event''"
  shows "table_slot msg =
     (if event msg = Some ''output'' then Some Body_source
      else if event msg = Some ''loadedSource'' then Some Body_source
      else if event msg = Some ''breakpoint'' then Some Body_breakpoint_source
      else None)"
  using assms by (cases "event msg") (auto simp: table_slot_def sub_kind_def source_table_def)

lemma table_slot_request:
  assumes "msg_type msg = ''request''"
  shows "table_slot msg =
     (if command msg = Some ''setBreakpoints'' then Some Arguments_source
      else if command msg = Some ''breakpointLocations'' then Some Arguments_source
      else if command msg = Some ''source'' then Some Arguments_source
      else if command msg = Some ''gotoTargets'' then Some Arguments_source
      else None)"
  using assms by (cases "command msg") (auto simp: table_slot_def sub_kind_def source_table_def)

lemma table_slot_response:
  assumes "msg_type msg = ''response''"
  shows "table_slot msg =
     (if \<not> success msg then None
      else if command msg = Some ''stackTrace'' then Some Body_stackFrames
      else if command msg = Some ''loadedSources'' then Some Body_sources
      else if command msg = Some ''scopes'' then Some Body_scopes
      else if command msg = Some ''setFunctionBreakpoints'' then Some Body_breakpoints
      else if command msg = Some ''setBreakpoints'' then Some Body_breakpoints
      else None)"
  using assms by (cases "command msg") (auto simp: table_slot_def sub_kind_def source_table_def)

lemma table_slot_other:
  assumes "msg_type msg \<noteq> ''event''" "msg_type msg \<noteq> ''request''" "msg_type msg \<noteq> ''response''"
  shows "table_slot msg = None"
  using assms by (cases "command msg") (auto simp: table_slot_def sub_kind_def source_table_def)

lemma visitSources_slot:
  "visitSources h msg = (case table_slot msg of None \<Rightarrow> Inr msg | Some s \<Rightarrow> code_slot h s msg)"
proof -
  consider "msg_type msg = ''event''" | "msg_type msg = ''request''" | "msg_type msg = ''response''"
    | "msg_type msg \<noteq> ''event''" "msg_type msg \<noteq> ''request''" "msg_type msg \<noteq> ''response''"
    by blast
  then show ?thesis
  proof cases
    case 1
    then show ?thesis by (simp add: visitSources_def table_slot_event)
  next
    case 2
    then show ?thesis by (simp add: visitSources_def table_slot_request)
  next
    case 3
    then show ?thesis by (simp add: visitSources_def table_slot_response)
  next
    case 4
    then show ?thesis by (simp add: visitSources_def table_slot_other)
  qed
qed

lemma visited_slot:
  "visited msg = (case table_slot msg of None \<Rightarrow> [] | Some s \<Rightarrow> get_slot s msg)"
proof -
  consider "msg_type msg = ''event''" | "msg_type msg = ''request''" | "msg_type msg = ''response''"
    | "msg_type msg \<noteq> ''event''" "msg_type msg \<noteq> ''request''" "msg_type msg \<noteq> ''response''"
    by blast
  then show ?thesis
  proof cases
    case 1
    then show ?thesis by (simp add: visited_def table_slot_event)
  next
    case 2
    then show ?thesis by (simp add: visited_def table_slot_request)
  next
    case 3
    then show ?thesis
      by (cases "body msg") (simp_all add: visited_def table_slot_response body_sources_def)
  next
    case 4
    then show ?thesis by (simp add: visited_def table_slot_other)
  qed
qed

lemma table_slot_cong:
  "msg_type msg' = msg_type msg \<Longrightarrow> event msg' = event msg \<Longrightarrow> command msg' = command msg \<Longrightarrow>
   success msg' = success msg \<Longrightarrow> table_slot msg' = table_slot msg"
  by (simp add: table_slot_def sub_kind_def split: option.splits)

lemma code_slot_get:
  assumes "code_slot h s msg = Inr msg'"
  shows "get_slot s msg' = map (map_option h) (get_slot s msg)"
proof (cases s)
  case Body_source
  with assms on_body_sources[OF _ hook_get(1)] show ?thesis by simp
next
  case Body_breakpoint_source
  with assms on_body_sources[OF _ hook_get(2)] show ?thesis by simp
next
  case Arguments_source
  with assms on_arguments_sources[OF _ hook_get(1)] show ?thesis by simp
next
  case Body_stackFrames
  with assms on_body_sources[OF _ hook_get(3)] show ?thesis
    by (cases "body msg") (auto simp: body_sources_def)
next
  case Body_sources
  with assms on_body_sources[OF _ hook_get(4)] show ?thesis
    by (cases "body msg") (auto simp: body_sources_def)
next
  case Body_scopes
  with assms on_body_sources[OF _ hook_get(5)] show ?thesis
    by (cases "body msg") (auto simp: body_sources_def)
next
  case Body_breakpoints
  with assms on_body_sources[OF _ hook_get(6)] show ?thesis
    by (cases "body msg") (auto simp: body_sources_def)
qed

lemma guarded_on_body_frame:
  assumes "(if body msg = None then Inr msg else on_body msg f) = Inr msg'"
  shows "msg_type msg' = msg_type msg \<and> event msg' = event msg \<and>
      command msg' = command msg \<and> success msg' = success msg"
proof (cases "body msg")
  case None
  with assms show ?thesis by simp
next
  case (Some b)
  with assms have "on_body msg f = Inr msg'" by simp
  from on_body_frame[OF this] show ?thesis by simp
qed

lemma code_slot_frame:
  assumes "code_slot h s msg = Inr msg'"
  shows "msg_type msg' = msg_type msg \<and> event msg' = event msg \<and>
      command msg' = command msg \<and> success msg' = success msg"
proof (cases s)
  case Body_source
  with assms have "on_body msg (hook_source h) = Inr msg'" by simp
  from on_body_frame[OF this] show ?thesis by simp
next
  case Body_breakpoint_source
  with assms have "on_body msg (hook_breakpoint h) = Inr msg'" by simp
  from on_body_frame[OF this] show ?thesis by simp
next
  case Arguments_source
  with assms have "on_arguments msg (hook_source h) = Inr msg'" by simp
  from on_arguments_frame[OF this] show ?thesis by simp
next
  case Body_stackFrames
  with assms show ?thesis by (intro guarded_on_body_frame[of msg "hook_stackFrames h"]) simp
next
  case Body_sources
  with assms show ?thesis by (intro guarded_on_body_frame[of msg "hook_sources h"]) simp
next
  case Body_scopes
  with assms show ?thesis by (intro guarded_on_body_frame[of msg "hook_scopes h"]) simp
next
  case Body_breakpoints
  with assms show ?thesis by (intro guarded_on_body_frame[of msg "hook_breakpoints h"]) simp
qed

lemma code_slot_table:
  assumes "code_slot h s msg = Inr msg'"
  shows "table_slot msg' = table_slot msg"
  using code_slot_frame[OF assms] by (intro table_slot_cong) simp_all

lemma visited_visitSources:
  assumes "visitSources h msg = Inr msg'"
  shows "visited msg' = map (map_option h) (visited msg)"
proof (cases "table_slot msg")
  case None
  with assms show ?thesis by (simp add: visitSources_slot visited_slot)
next
  case (Some s)
  with assms have c: "code_slot h s msg = Inr msg'" by (simp add: visitSources_slot)
  from code_slot_table[OF c] code_slot_get[OF c] Some show ?thesis
    by (simp add: visited_slot)
qed

lemma code_slot_present:
  "slot_present s msg \<Longrightarrow> code_slot h s msg = Inr (visit_slot h s msg)"
proof (cases s)
  case Body_source
  then show "slot_present s msg \<Longrightarrow> ?thesis"
    by (cases "body msg") (simp_all add: on_body_def in_body_def hook_source_def)
next
  case Body_breakpoint_source
  then show "slot_present s msg \<Longrightarrow> ?thesis"
    by (cases "body msg")
       (auto simp: on_body_def in_body_def hook_breakpoint_def split: option.splits)
next
  case Arguments_source
  then show "slot_present s msg \<Longrightarrow> ?thesis"
    by (cases "arguments msg") (simp_all add: on_arguments_def in_arguments_def hook_source_def)
next
  case Body_stackFrames
  then show "slot_present s msg \<Longrightarrow> ?thesis"
    by (cases "body msg")
       (auto simp: on_body_def in_body_def hook_stackFrames_def split: option.splits)
next
  case Body_sources
  then show "slot_present s msg \<Longrightarrow> ?thesis"
    by (cases "body msg")
       (auto simp: on_body_def in_body_def hook_sources_def split: option.splits)
next
  case Body_scopes
  then show "slot_present s msg \<Longrightarrow> ?thesis"
    by (cases "body msg")
       (auto simp: on_body_def in_body_def hook_scopes_def split: option.splits)
next
  case Body_breakpoints
  then show "slot_present s msg \<Longrightarrow> ?thesis"
    by (cases "body msg")
       (auto simp: on_body_def in_body_def hook_breakpoints_def split: option.splits)
qed

lemma code_slot_absent:
  "\<not> slot_present s msg \<Longrightarrow> code_slot h s msg = Inl TypeError"
proof (cases s)
  case Body_source
  then show "\<not> slot_present s msg \<Longrightarrow> ?thesis"
    by (cases "body msg") (simp_all add: on_body_def)
next
  case Body_breakpoint_source
  then show "\<not> slot_present s msg \<Longrightarrow> ?thesis"
    by (cases "body msg") (auto simp: on_body_def hook_breakpoint_def split: option.splits)
next
  case Arguments_source
  then show "\<not> slot_present s msg \<Longrightarrow> ?thesis"
    by (cases "arguments msg") (simp_all add: on_arguments_def)
next
  case Body_stackFrames
  then show "\<not> slot_present s msg \<Longrightarrow> ?thesis"
    by (cases "body msg") (auto simp: on_body_def hook_stackFrames_def split: option.splits)
next
  case Body_sources
  then show "\<not> slot_present s msg \<Longrightarrow> ?thesis"
    by (cases "body msg") (auto simp: on_body_def hook_sources_def split: option.splits)
next
  case Body_scopes
  then show "\<not> slot_present s msg \<Longrightarrow> ?thesis"
    by (cases "body msg") (auto simp: on_body_def hook_scopes_def split: option.splits)
next
  case Body_breakpoints
  then show "\<not> slot_present s msg \<Longrightarrow> ?thesis"
    by (cases "body msg") (auto simp: on_body_def hook_breakpoints_def split: option.splits)
qed

lemma visitSources_wf: "wf_message msg \<Longrightarrow> visitSources h msg = Inr (table_visit h msg)"
  by (cases "table_slot msg")
     (simp_all add: visitSources_slot wf_message_def table_visit_def code_slot_present)

lemma visitSources_not_wf: "\<not> wf_message msg \<Longrightarrow> visitSources h msg = Inl TypeError"
  by (cases "table_slot msg")
     (simp_all add: visitSources_slot wf_message_def code_slot_absent)

lemma visitSources_no_row: "table_slot msg = None \<Longrightarrow> visitSources h msg = Inr msg"
  by (simp add: visitSources_slot)

section \<open>Properties of the protocol bridge\<close>

lemma toKernel_hook_unmapped:
  "(\<forall>p. src_path src = Some p \<longrightarrow> cellToFile st p = None) \<Longrightarrow> toKernel_hook st src = src"
  by (simp add: toKernel_hook_def split: option.splits)

lemma toEditor_hook_unmapped:
  "(\<forall>p. src_path src = Some p \<longrightarrow> fileToCell st p = None) \<Longrightarrow> toEditor_hook st doc src = src"
  by (simp add: toEditor_hook_def split: option.splits)




lemma on_kernel_message_fire:
  "on_kernel_message st doc evt = ([Fire msg'], None) \<Longrightarrow>
     visitSources (toEditor_hook st doc) (content evt) = Inr msg'"
  by (auto simp: on_kernel_message_def split: if_splits sum.splits)

lemma visited_nth:
  assumes "visitSources h msg = Inr msg'" "k < length (visited msg)" "visited msg ! k = Some src"
  shows "visited msg' ! k = Some (h src)"
  using assms by (simp add: visited_visitSources)

lemma handleMessage_None:
  "handleMessage host doc st msg = (st1, effects, None) \<Longrightarrow>
     \<exists>dumped m1. intercept host doc st msg = Inr (st1, dumped) \<and>
        visitSources (toKernel_hook st1) msg = Inr m1 \<and> effects = dumped @ dispatch m1"
  by (auto simp: handleMessage_def split: sum.splits prod.splits)

lemma dumpCell_effects:
  "e \<in> set (snd (dumpCell host doc st uri)) \<Longrightarrow> e \<noteq> SendRaw env"
  by (auto simp: dumpCell_def split: option.splits sum.splits)

lemma intercept_effects:
  "intercept host doc st msg = Inr (st1, dumped) \<Longrightarrow> e \<in> set dumped \<Longrightarrow> e \<noteq> SendRaw env"
  using dumpCell_effects[of e host doc st _ env]
  by (auto simp: intercept_def split: if_splits option.splits) (metis snd_conv)+

lemma dispatch_SendRaw:
  "SendRaw env \<in> set (dispatch m) \<Longrightarrow> envelope_message env = m"
  by (auto simp: dispatch_def envelope_message_def split: if_splits)

lemma intercept_not_setBreakpoints:
  "\<not> (msg_type msg = ''request'' \<and> command msg = Some ''setBreakpoints'') \<Longrightarrow>
     intercept host doc st msg = Inr (st, [])"
  by (auto simp: intercept_def)




text \<open>
  Claim C9. On a message that has the container its row of the table names, the visitor
  applies the hook to exactly the source locations of that row and changes nothing else;
  a message with no row in the table, in particular every unsuccessful response, is
  returned as it is, whatever the hook.
\<close>

theorem visitSources_follows_table:
  "(wf_message msg \<longrightarrow> visitSources h msg = Inr (table_visit h msg))
 \<and> (table_slot msg = None \<longrightarrow> visitSources h msg = Inr msg)
 \<and> (msg_type msg = ''response'' \<and> \<not> success msg \<longrightarrow> visitSources h msg = Inr msg)"
proof -
  have "table_slot msg = None" if "msg_type msg = ''response''" "\<not> success msg"
    using that by (simp add: table_slot_def)
  then show ?thesis
    using visitSources_wf[of msg h] visitSources_no_row[of msg h] by blast
qed

theorem visitSources_follows_table_witness:
  "visitSources rename_hook (stackTrace_response True ''/tmp/xeus_5.py'') =
     Inr ((stackTrace_response True ''/tmp/xeus_5.py'')
       \<lparr>body := Some (empty_payload\<lparr>p_stackFrames :=
          Some [\<lparr>frame_id = 1, frame_name = ''f'',
                 frame_source = Some \<lparr>src_name = Some ''visited'', src_path = Some ''/tmp/xeus_5.py'',
                                       sourceReference = None\<rparr>,
                 frame_line = 2\<rparr>,
                \<lparr>frame_id = 2, frame_name = ''<module>'', frame_source = None, frame_line = 5\<rparr>]\<rparr>)\<rparr>)
   \<and> visitSources rename_hook (stackTrace_response False ''/tmp/xeus_5.py'') =
       Inr (stackTrace_response False ''/tmp/xeus_5.py'')
   \<and> visitSources rename_hook stopped_event = Inr stopped_event"
proof -
  have w: "wf_message (stackTrace_response True ''/tmp/xeus_5.py'')"
    by code_simp
  have t: "table_visit rename_hook (stackTrace_response True ''/tmp/xeus_5.py'') =
     (stackTrace_response True ''/tmp/xeus_5.py'')
       \<lparr>body := Some (empty_payload\<lparr>p_stackFrames :=
          Some [\<lparr>frame_id = 1, frame_name = ''f'',
                 frame_source = Some \<lparr>src_name = Some ''visited'', src_path = Some ''/tmp/xeus_5.py'',
                                       sourceReference = None\<rparr>,
                 frame_line = 2\<rparr>,
                \<lparr>frame_id = 2, frame_name = ''<module>'', frame_source = None, frame_line = 5\<rparr>]\<rparr>)\<rparr>"
    by code_simp
  have u: "msg_type (stackTrace_response False ''/tmp/xeus_5.py'') = ''response''"
    "\<not> success (stackTrace_response False ''/tmp/xeus_5.py'')"
    by (simp_all add: stackTrace_response_def)
  have n: "table_slot stopped_event = None"
    by code_simp
  from visitSources_follows_table[of "stackTrace_response True ''/tmp/xeus_5.py''" rename_hook]
    visitSources_follows_table[of "stackTrace_response False ''/tmp/xeus_5.py''" rename_hook]
    visitSources_follows_table[of stopped_event rename_hook]
    w t u n
  show ?thesis by simp
qed

text \<open>
  Claim C6. In both directions a visited source whose path has no entry in the mapping
  used for the rewrite (\<open>cellToFile\<close> for a message the editor sends,
  \<open>fileToCell\<close> for a message of the kernel) is the same source, with the same path
  and display name, in the message sent on.
\<close>

theorem unmapped_sources_unchanged:
  "(handleMessage host doc st msg = (st1, effects, None) \<and> SendRaw env \<in> set effects \<and>
      k < length (visited msg) \<and> visited msg ! k = Some src \<and>
      (\<forall>p. src_path src = Some p \<longrightarrow> cellToFile st1 p = None)
    \<longrightarrow> visited (envelope_message env) ! k = Some src)
 \<and> (on_kernel_message st doc evt = ([Fire msg'], None) \<and>
      k < length (visited (content evt)) \<and> visited (content evt) ! k = Some src \<and>
      (\<forall>p. src_path src = Some p \<longrightarrow> fileToCell st p = None)
    \<longrightarrow> visited msg' ! k = Some src)"
proof (intro conjI impI; elim conjE)
  assume h: "handleMessage host doc st msg = (st1, effects, None)" and e: "SendRaw env \<in> set effects"
    and k: "k < length (visited msg)" "visited msg ! k = Some src"
    and u: "\<forall>p. src_path src = Some p \<longrightarrow> cellToFile st1 p = None"
  from handleMessage_None[OF h] obtain dumped m1 where
    i: "intercept host doc st msg = Inr (st1, dumped)"
    and v: "visitSources (toKernel_hook st1) msg = Inr m1"
    and eff: "effects = dumped @ dispatch m1"
    by blast
  from e eff intercept_effects[OF i] have "SendRaw env \<in> set (dispatch m1)" by auto
  then have "envelope_message env = m1" by (rule dispatch_SendRaw)
  with visited_nth[OF v k] toKernel_hook_unmapped[OF u]
  show "visited (envelope_message env) ! k = Some src" by simp
next
  assume f: "on_kernel_message st doc evt = ([Fire msg'], None)"
    and k: "k < length (visited (content evt))" "visited (content evt) ! k = Some src"
    and u: "\<forall>p. src_path src = Some p \<longrightarrow> fileToCell st p = None"
  from visited_nth[OF on_kernel_message_fire[OF f] k] toEditor_hook_unmapped[OF u]
  show "visited msg' ! k = Some src" by simp
qed

lemma example_bridge_maps:
  "cellToFile example_bridge ''/usr/lib/python3/os.py'' = None"
  "fileToCell example_bridge ''/usr/lib/python3/os.py'' = None"
  "fileToCell example_bridge ''/tmp/xeus_5.py'' = Some (example_cell 12 ''00000002'' ''y = 2'')"
  by code_simp+

lemma library_request:
  "handleMessage example_host three_doc example_bridge
     (setBreakpoints_request ''/usr/lib/python3/os.py'') =
   (example_bridge, [SendRaw (DebugRequest (setBreakpoints_request ''/usr/lib/python3/os.py''))], None)"
  by (simp add: handleMessage_def intercept_def setBreakpoints_request_def is_cell_address_def
        visitSources_def on_arguments_def hook_source_def toKernel_hook_def example_source_def
        empty_payload_def dispatch_def example_bridge_maps)

lemma library_event:
  "on_kernel_message example_bridge three_doc (debug_event (loadedSource_event ''/usr/lib/python3/os.py'')) =
   ([Fire (loadedSource_event ''/usr/lib/python3/os.py'')], None)"
  by code_simp

lemma visited_examples:
  "visited (setBreakpoints_request p) = [Some (example_source p)]"
  "visited (loadedSource_event p) = [Some (example_source p)]"
  by (simp_all add: visited_def setBreakpoints_request_def loadedSource_event_def
        arguments_sources_def body_sources_def get_source_def empty_payload_def)

theorem unmapped_sources_unchanged_witness:
  "visited (envelope_message (DebugRequest (setBreakpoints_request ''/usr/lib/python3/os.py''))) ! 0 =
     Some (example_source ''/usr/lib/python3/os.py'')
   \<and> on_kernel_message example_bridge three_doc
         (debug_event (loadedSource_event ''/usr/lib/python3/os.py'')) =
       ([Fire (loadedSource_event ''/usr/lib/python3/os.py'')], None)
   \<and> visited (loadedSource_event ''/usr/lib/python3/os.py'') ! 0 =
       Some (example_source ''/usr/lib/python3/os.py'')"
  using unmapped_sources_unchanged[where host = example_host and doc = three_doc
      and st = example_bridge and msg = "setBreakpoints_request ''/usr/lib/python3/os.py''"
      and ?st1.0 = example_bridge
      and effects = "[SendRaw (DebugRequest (setBreakpoints_request ''/usr/lib/python3/os.py''))]"
      and env = "DebugRequest (setBreakpoints_request ''/usr/lib/python3/os.py'')"
      and k = 0 and src = "example_source ''/usr/lib/python3/os.py''"
      and evt = "debug_event (loadedSource_event ''/usr/lib/python3/os.py'')"
      and msg' = "loadedSource_event ''/usr/lib/python3/os.py''"]
    library_request library_event example_bridge_maps
  by (simp add: visited_examples debug_event_def example_source_def)









lemma handleMessage_not_wf:
  assumes "\<not> wf_message msg"
  shows "handleMessage host doc st msg = (st, [], Some TypeError)"
proof (cases "msg_type msg = ''request'' \<and> command msg = Some ''setBreakpoints''")
  case True
  then have "table_slot msg = Some Arguments_source" by (simp add: table_slot_request)
  with assms have "arguments msg = None" by (simp add: wf_message_def)
  with True show ?thesis by (simp add: handleMessage_def intercept_def)
next
  case False
  then have "intercept host doc st msg = Inr (st, [])" by (rule intercept_not_setBreakpoints)
  with visitSources_not_wf[OF assms, of "toKernel_hook st"] show ?thesis
    by (simp add: handleMessage_def)
qed


lemma is_cell_address_nonempty: "is_cell_address sp \<Longrightarrow> sp \<noteq> []"
  by (auto simp: is_cell_address_def)

lemma find_address:
  "find (\<lambda>c. uri_toString (cell_uri c) = sp) cs = Some cell \<Longrightarrow> uri_toString (cell_uri cell) = sp"
  by (auto simp: find_Some_iff)

text \<open>
  Claim C2, as the code has it. The adapter never consults its maps before materializing:
  every \<^verbatim>\<open>setBreakpoints\<close> request whose source path is the address of a cell of the
  document issues exactly one \<^verbatim>\<open>dumpCell\<close> call, before the request is forwarded,
  whether or not the address was materialized before. When the host answers with a
  non-empty file path, the forwarded request carries that path.
\<close>

theorem setBreakpoints_always_dumps:
  assumes "msg_type msg = ''request''" and "command msg = Some ''setBreakpoints''"
    and "arguments msg = Some args" and "p_source args = Some src" and "src_path src = Some sp"
    and "is_cell_address sp"
    and "find (\<lambda>c. uri_toString (cell_uri c) = sp) (cells doc) = Some cell"
  shows "\<exists>st1 logged m1.
      handleMessage host doc st msg =
        (st1, CustomRequest ''dumpCell'' (cell_text cell) # logged @ [SendRaw (DebugRequest m1)], None)
    \<and> (\<forall>e\<in>set logged. \<exists>err. e = ConsoleLog err)
    \<and> (\<forall>f. host (cell_text cell) = Inr f \<and> f \<noteq> [] \<longrightarrow>
          m1 = msg\<lparr>arguments := Some (args\<lparr>p_source := Some (src\<lparr>src_path := Some f\<rparr>)\<rparr>)\<rparr>)"
proof -
  note ne = is_cell_address_nonempty[OF assms(6)]
  note addr = find_address[OF assms(7)]
  have v: "visitSources h msg = Inr (msg\<lparr>arguments := Some (args\<lparr>p_source := Some (h src)\<rparr>)\<rparr>)" for h
    using assms(1-4) by (simp add: visitSources_def on_arguments_def hook_source_def)
  have d: "dispatch (msg\<lparr>arguments := a\<rparr>) = [SendRaw (DebugRequest (msg\<lparr>arguments := a\<rparr>))]" for a
    using assms(1) by (simp add: dispatch_def)
  show ?thesis
  proof (cases "host (cell_text cell)")
    case (Inl err)
    with assms ne have "handleMessage host doc st msg =
        (st, CustomRequest ''dumpCell'' (cell_text cell) # [ConsoleLog err] @
             [SendRaw (DebugRequest (msg\<lparr>arguments := Some (args\<lparr>p_source := Some (toKernel_hook st src)\<rparr>)\<rparr>))],
         None)"
      by (simp add: handleMessage_def intercept_def dumpCell_def v d)
    with Inl show ?thesis
      by (intro exI[of _ st] exI[of _ "[ConsoleLog err]"]
            exI[of _ "msg\<lparr>arguments := Some (args\<lparr>p_source := Some (toKernel_hook st src)\<rparr>)\<rparr>"])
         simp
  next
    case (Inr f)
    define st1 where "st1 = st\<lparr>fileToCell := (fileToCell st)(f \<mapsto> cell),
        cellToFile := (cellToFile st)(uri_toString (cell_uri cell) \<mapsto> f)\<rparr>"
    from assms ne Inr have h: "handleMessage host doc st msg =
        (st1, CustomRequest ''dumpCell'' (cell_text cell) # [] @
             [SendRaw (DebugRequest (msg\<lparr>arguments := Some (args\<lparr>p_source := Some (toKernel_hook st1 src)\<rparr>)\<rparr>))],
         None)"
      by (simp add: handleMessage_def intercept_def dumpCell_def v d st1_def)
    have "toKernel_hook st1 src = src\<lparr>src_path := Some f\<rparr>" if "f \<noteq> []"
      using that assms(5) ne addr by (simp add: toKernel_hook_def st1_def)
    with h Inr show ?thesis by (intro exI[of _ st1] exI[of _ "[]"]) auto
  qed
qed

lemma first_request:
  "snd (handleMessage example_host three_doc new_bridge
          (setBreakpoints_request ''vscode-notebook-cell:/work/nb.ipynb#00000002'')) =
     ([CustomRequest ''dumpCell'' ''y = 2'',
       SendRaw (DebugRequest (setBreakpoints_request ''/tmp/xeus_5.py''))], None)"
  by code_simp

theorem setBreakpoints_always_dumps_witness:
  "is_cell_address ''vscode-notebook-cell:/work/nb.ipynb#00000002''
   \<and> find (\<lambda>c. uri_toString (cell_uri c) = ''vscode-notebook-cell:/work/nb.ipynb#00000002'')
        (cells three_doc) = Some (example_cell 12 ''00000002'' ''y = 2'')
   \<and> snd (handleMessage example_host three_doc new_bridge
          (setBreakpoints_request ''vscode-notebook-cell:/work/nb.ipynb#00000002'')) =
     ([CustomRequest ''dumpCell'' ''y = 2'',
       SendRaw (DebugRequest (setBreakpoints_request ''/tmp/xeus_5.py''))], None)"
proof -
  have a: "is_cell_address ''vscode-notebook-cell:/work/nb.ipynb#00000002''"
    by code_simp
  have f: "find (\<lambda>c. uri_toString (cell_uri c) = ''vscode-notebook-cell:/work/nb.ipynb#00000002'')
        (cells three_doc) = Some (example_cell 12 ''00000002'' ''y = 2'')"
    by code_simp
  define m where "m = setBreakpoints_request ''vscode-notebook-cell:/work/nb.ipynb#00000002''"
  have m: "msg_type m = ''request''" "command m = Some ''setBreakpoints''"
    "arguments m = Some (empty_payload\<lparr>p_source :=
        Some (example_source ''vscode-notebook-cell:/work/nb.ipynb#00000002'')\<rparr>)"
    by (simp_all add: m_def setBreakpoints_request_def)
  have s: "p_source (empty_payload\<lparr>p_source :=
        Some (example_source ''vscode-notebook-cell:/work/nb.ipynb#00000002'')\<rparr>) =
      Some (example_source ''vscode-notebook-cell:/work/nb.ipynb#00000002'')"
    "src_path (example_source ''vscode-notebook-cell:/work/nb.ipynb#00000002'') =
      Some ''vscode-notebook-cell:/work/nb.ipynb#00000002''"
    by (simp_all add: example_source_def)
  from setBreakpoints_always_dumps[OF m s a f, of example_host new_bridge] first_request a f
  show ?thesis by simp
qed

text \<open>
  The second \<^verbatim>\<open>setBreakpoints\<close> request for an address whose file is already in
  \<open>cellToFile\<close> issues another \<^verbatim>\<open>dumpCell\<close> call.
\<close>

theorem second_request_dumps_again:
  "cellToFile example_bridge ''vscode-notebook-cell:/work/nb.ipynb#00000002'' = Some ''/tmp/xeus_5.py''
   \<and> snd (handleMessage example_host three_doc example_bridge
          (setBreakpoints_request ''vscode-notebook-cell:/work/nb.ipynb#00000002'')) =
     ([CustomRequest ''dumpCell'' ''y = 2'',
       SendRaw (DebugRequest (setBreakpoints_request ''/tmp/xeus_5.py''))], None)"
  by code_simp

section \<open>Properties of materialization\<close>

lemma recorded_address:
  "recorded (host, doc, uri) = Some (a, f, c) \<Longrightarrow> uri_toString (cell_uri c) = a"
  by (auto simp: recorded_def split: option.splits sum.splits)

lemma dumpCell_recorded:
  "fst (dumpCell host doc st uri) =
     (case recorded (host, doc, uri) of
        None \<Rightarrow> st
      | Some (a, f, c) \<Rightarrow>
          st\<lparr>fileToCell := (fileToCell st)(f \<mapsto> c), cellToFile := (cellToFile st)(a \<mapsto> f)\<rparr>)"
  by (auto simp: dumpCell_def recorded_def split: option.splits sum.splits)

lemma linked_dumpCell: "linked st \<Longrightarrow> linked (fst (dumpCell host doc st uri))"
proof (cases "recorded (host, doc, uri)")
  case None
  then show "linked st \<Longrightarrow> ?thesis" by (simp add: dumpCell_recorded)
next
  case (Some w)
  then obtain a f c where w: "recorded (host, doc, uri) = Some (a, f, c)" by (cases w) auto
  from recorded_address[OF w] w show "linked st \<Longrightarrow> ?thesis"
    unfolding linked_def dumpCell_recorded by (auto split: if_splits)
qed

lemma linked_dumpCells: "linked st \<Longrightarrow> linked (dumpCells steps st)"
  by (induction steps arbitrary: st) (auto simp: linked_dumpCell)

lemma one_to_oneD:
  "one_to_one ws \<Longrightarrow> (a, f, c) \<in> set ws \<Longrightarrow> (a', f', c') \<in> set ws \<Longrightarrow> (a = a') = (f = f')"
  unfolding one_to_one_def list_all_iff by fast

lemma paired_dumpCell:
  assumes o: "\<forall>a f c a' f' c'. (a, f, c) \<in> W \<and> (a', f', c') \<in> W \<longrightarrow> (a = a') = (f = f')"
    and p: "paired st"
    and k: "\<forall>a f. cellToFile st a = Some f \<longrightarrow> (\<exists>c. (a, f, c) \<in> W)"
    and r: "\<forall>w. recorded (host, doc, uri) = Some w \<longrightarrow> w \<in> W"
  shows "paired (fst (dumpCell host doc st uri)) \<and>
         (\<forall>a f. cellToFile (fst (dumpCell host doc st uri)) a = Some f \<longrightarrow> (\<exists>c. (a, f, c) \<in> W))"
proof (cases "recorded (host, doc, uri)")
  case None
  with p k show ?thesis by (simp add: dumpCell_recorded)
next
  case (Some w)
  then obtain a f c where w: "recorded (host, doc, uri) = Some (a, f, c)" by (cases w) auto
  note addr = recorded_address[OF w]
  from r w have inW: "(a, f, c) \<in> W" by simp
  let ?st = "st\<lparr>fileToCell := (fileToCell st)(f \<mapsto> c), cellToFile := (cellToFile st)(a \<mapsto> f)\<rparr>"
  have st': "fst (dumpCell host doc st uri) = ?st" by (simp add: dumpCell_recorded w)
  have k': "\<forall>a2 f2. cellToFile ?st a2 = Some f2 \<longrightarrow> (\<exists>c. (a2, f2, c) \<in> W)"
    using k inW by auto
  have "cellToFile ?st a2 = Some f2 \<longleftrightarrow>
        (\<exists>c2. fileToCell ?st f2 = Some c2 \<and> uri_toString (cell_uri c2) = a2)" for a2 f2
  proof (cases "a2 = a"; cases "f2 = f")
    assume "a2 = a" "f2 = f"
    then show ?thesis using addr by simp
  next
    assume e: "a2 = a" "f2 \<noteq> f"
    have "\<not> (\<exists>c2. fileToCell st f2 = Some c2 \<and> uri_toString (cell_uri c2) = a)"
    proof
      assume "\<exists>c2. fileToCell st f2 = Some c2 \<and> uri_toString (cell_uri c2) = a"
      with p have "cellToFile st a = Some f2" by (simp add: paired_def)
      with k obtain c2 where "(a, f2, c2) \<in> W" by blast
      with inW o e show False by blast
    qed
    with e show ?thesis by simp
  next
    assume e: "a2 \<noteq> a" "f2 = f"
    have "cellToFile st a2 \<noteq> Some f"
    proof
      assume "cellToFile st a2 = Some f"
      with k obtain c2 where "(a2, f, c2) \<in> W" by blast
      with inW o e show False by blast
    qed
    with e addr show ?thesis by simp
  next
    assume e: "a2 \<noteq> a" "f2 \<noteq> f"
    with p show ?thesis by (simp add: paired_def)
  qed
  then have "paired ?st" by (simp add: paired_def)
  with k' st' show ?thesis by simp
qed

lemma paired_dumpCells:
  assumes o: "\<forall>a f c a' f' c'. (a, f, c) \<in> W \<and> (a', f', c') \<in> W \<longrightarrow> (a = a') = (f = f')"
  shows "paired st \<Longrightarrow> \<forall>a f. cellToFile st a = Some f \<longrightarrow> (\<exists>c. (a, f, c) \<in> W) \<Longrightarrow>
         \<forall>s\<in>set steps. \<forall>w. recorded s = Some w \<longrightarrow> w \<in> W \<Longrightarrow>
         paired (dumpCells steps st)"
proof (induction steps arbitrary: st)
  case Nil
  then show ?case by simp
next
  case (Cons s steps)
  obtain host doc uri where s: "s = (host, doc, uri)" by (cases s) auto
  from Cons.prems(3) s have r: "\<forall>w. recorded (host, doc, uri) = Some w \<longrightarrow> w \<in> W" by simp
  from paired_dumpCell[OF o Cons.prems(1,2) r] Cons.prems(3)
  have "paired (dumpCells steps (fst (dumpCell host doc st uri)))"
    by (intro Cons.IH) auto
  with s show ?case by simp
qed

lemma set_map_filter: "set (List.map_filter g xs) = {y. \<exists>x\<in>set xs. g x = Some y}"
  by (induction xs) (auto simp: List.map_filter_def)

text \<open>
  Claim C3, as the code has it. A materialization that fails, or finds no cell, writes
  neither map; one that succeeds writes both entries together. After any sequence of
  materializations on a new adapter, every file in \<open>cellToFile\<close> has an entry in
  \<open>fileToCell\<close> and the address of every cell in \<open>fileToCell\<close> has an entry in
  \<open>cellToFile\<close>. The entries pair up (the file of an address is mapped to the cell of
  that address, and conversely) when the host's answers are one-to-one: the same file
  for the same address and different files for different addresses.
\<close>

theorem materializations_keep_maps_linked:
  "(\<forall>a f. cellToFile (dumpCells steps new_bridge) a = Some f \<longrightarrow>
       (\<exists>c. fileToCell (dumpCells steps new_bridge) f = Some c))
 \<and> (\<forall>f c. fileToCell (dumpCells steps new_bridge) f = Some c \<longrightarrow>
       (\<exists>f'. cellToFile (dumpCells steps new_bridge) (uri_toString (cell_uri c)) = Some f'))
 \<and> (one_to_one (List.map_filter recorded steps) \<longrightarrow>
       (\<forall>a f. cellToFile (dumpCells steps new_bridge) a = Some f \<longleftrightarrow>
          (\<exists>c. fileToCell (dumpCells steps new_bridge) f = Some c \<and> uri_toString (cell_uri c) = a)))
 \<and> (find (\<lambda>c. uri_toString (cell_uri c) = uri) (cells doc) = None \<longrightarrow>
       fst (dumpCell host doc st uri) = st)
 \<and> (\<forall>cell err. find (\<lambda>c. uri_toString (cell_uri c) = uri) (cells doc) = Some cell \<and>
        host (cell_text cell) = Inl err \<longrightarrow>
       fst (dumpCell host doc st uri) = st)
 \<and> (\<forall>cell f. find (\<lambda>c. uri_toString (cell_uri c) = uri) (cells doc) = Some cell \<and>
        host (cell_text cell) = Inr f \<longrightarrow>
       fst (dumpCell host doc st uri) =
         st\<lparr>fileToCell := (fileToCell st)(f \<mapsto> cell),
            cellToFile := (cellToFile st)(uri_toString (cell_uri cell) \<mapsto> f)\<rparr>)"
proof -
  have l0: "linked new_bridge" and p0: "paired new_bridge"
    by (simp_all add: linked_def paired_def new_bridge_def)
  from linked_dumpCells[OF l0, of steps]
  have 1: "\<forall>a f. cellToFile (dumpCells steps new_bridge) a = Some f \<longrightarrow>
       (\<exists>c. fileToCell (dumpCells steps new_bridge) f = Some c)"
    and 2: "\<forall>f c. fileToCell (dumpCells steps new_bridge) f = Some c \<longrightarrow>
       (\<exists>f'. cellToFile (dumpCells steps new_bridge) (uri_toString (cell_uri c)) = Some f')"
    unfolding linked_def by blast+
  have 3: "\<forall>a f. cellToFile (dumpCells steps new_bridge) a = Some f \<longleftrightarrow>
          (\<exists>c. fileToCell (dumpCells steps new_bridge) f = Some c \<and> uri_toString (cell_uri c) = a)"
    if o: "one_to_one (List.map_filter recorded steps)"
  proof -
    let ?W = "set (List.map_filter recorded steps)"
    have "\<forall>a f c a' f' c'. (a, f, c) \<in> ?W \<and> (a', f', c') \<in> ?W \<longrightarrow> (a = a') = (f = f')"
      using one_to_oneD[OF o] by blast
    moreover have "\<forall>a f. cellToFile new_bridge a = Some f \<longrightarrow> (\<exists>c. (a, f, c) \<in> ?W)"
      by (simp add: new_bridge_def)
    moreover have "\<forall>s\<in>set steps. \<forall>w. recorded s = Some w \<longrightarrow> w \<in> ?W"
      by (auto simp: set_map_filter)
    ultimately have "paired (dumpCells steps new_bridge)"
      using p0 by (intro paired_dumpCells[where W = ?W])
    then show ?thesis unfolding paired_def by blast
  qed
  have 4: "find (\<lambda>c. uri_toString (cell_uri c) = uri) (cells doc) = None \<longrightarrow>
       fst (dumpCell host doc st uri) = st"
    by (simp add: dumpCell_def)
  have 5: "\<forall>cell err. find (\<lambda>c. uri_toString (cell_uri c) = uri) (cells doc) = Some cell \<and>
        host (cell_text cell) = Inl err \<longrightarrow> fst (dumpCell host doc st uri) = st"
    by (simp add: dumpCell_def)
  have 6: "\<forall>cell f. find (\<lambda>c. uri_toString (cell_uri c) = uri) (cells doc) = Some cell \<and>
        host (cell_text cell) = Inr f \<longrightarrow>
       fst (dumpCell host doc st uri) =
         st\<lparr>fileToCell := (fileToCell st)(f \<mapsto> cell),
            cellToFile := (cellToFile st)(uri_toString (cell_uri cell) \<mapsto> f)\<rparr>"
    by (simp add: dumpCell_def)
  from 1 2 3 4 5 6 show ?thesis by blast
qed

lemma example_steps_maps:
  "one_to_one (List.map_filter recorded example_steps)"
  "cellToFile (dumpCells example_steps new_bridge) ''vscode-notebook-cell:/work/nb.ipynb#00000002'' =
     Some ''/tmp/xeus_5.py''"
  "fileToCell (dumpCells example_steps new_bridge) ''/tmp/xeus_5.py'' =
     Some (example_cell 12 ''00000002'' ''y = 2'')"
  "cellToFile (dumpCells [hd example_steps] new_bridge) ''vscode-notebook-cell:/work/nb.ipynb#00000002'' =
     None"
  by code_simp+

theorem materializations_keep_maps_linked_witness:
  "one_to_one (List.map_filter recorded example_steps)
   \<and> cellToFile (dumpCells example_steps new_bridge) ''vscode-notebook-cell:/work/nb.ipynb#00000002'' =
       Some ''/tmp/xeus_5.py''
   \<and> (\<exists>c. fileToCell (dumpCells example_steps new_bridge) ''/tmp/xeus_5.py'' = Some c \<and>
          uri_toString (cell_uri c) = ''vscode-notebook-cell:/work/nb.ipynb#00000002'')
   \<and> cellToFile (dumpCells [hd example_steps] new_bridge) ''vscode-notebook-cell:/work/nb.ipynb#00000002'' =
       None"
  using materializations_keep_maps_linked[of example_steps] example_steps_maps
  by blast

text \<open>
  The host names the same file for the two cells of \<open>twin_doc\<close>, whose text is the
  same: the file recorded for the first cell is mapped back to the second cell.
\<close>

theorem maps_not_bijective:
  "cellToFile (dumpCells twin_steps new_bridge) ''vscode-notebook-cell:/work/nb.ipynb#00000000'' =
     Some ''/tmp/xeus_5.py''
   \<and> map_option cell_address (fileToCell (dumpCells twin_steps new_bridge) ''/tmp/xeus_5.py'') =
     Some ''vscode-notebook-cell:/work/nb.ipynb#00000001''"
  by code_simp

section \<open>Properties of the session coordinator\<close>

lemma toggleDebugging_rejected:
  assumes "notebookToDebugger mgr (doc_handle doc) = None"
    and "getDocumentKernel env = Returns" and "session_outcome env = Rejected err"
  shows "\<exists>mgr' doc' effects.
      toggleDebugging env mgr doc = (mgr', doc', effects, Returns) \<and>
      notebookToDebugger mgr' (doc_handle doc) =
        Some \<lparr>dbg_document = doc_handle doc, session = Rejected err\<rparr>"
  using assms by (simp add: toggleDebugging_def Let_def)

lemma toggleDebugging_after_rejected:
  assumes "notebookToDebugger mgr (doc_handle doc) = Some dbg" and "session dbg = Rejected err"
  shows "toggleDebugging env mgr doc = (mgr, doc, [], Throws err)"
  using assms by (simp add: toggleDebugging_def Debugger_stop_def)

text \<open>
  Claim C1: what the code does. The document has no session; the host rejects the start
  of the session. The call completes, and the map still holds the debugger of the failed
  start for the document.
\<close>

theorem toggleDebugging_failure_keeps_entry:
  "notebookToDebugger new_manager (doc_handle three_doc) = None
   \<and> snd (snd (snd (toggleDebugging failing_env new_manager three_doc))) = Returns
   \<and> notebookToDebugger (fst (toggleDebugging failing_env new_manager three_doc))
        (doc_handle three_doc) =
       Some \<lparr>dbg_document = 0, session = Rejected ''Error: Kernel appears to have been stopped''\<rparr>"
  by code_simp

end
